theory Spec2Isabelle
  imports Complex_Main "HOL-Library.Word" "HOL-Library.Sublist"
begin

unbundle bit_operations_syntax

section \<open>Ranking: \<open>calculate_weighted_score\<close>\<close>

text \<open>
  \<^verbatim>\<open>
  def calculate_weighted_score(baseline_score, email_date):
      try:
          date_obj = datetime.fromisoformat(email_date)
          days_old = (datetime.now() - date_obj).days
          recency_score = max(0, 100 - (days_old * 3.33))
      except:
          recency_score = 0
      weighted = (baseline_score * 0.7) + (recency_score * 0.3)
      return round(weighted, 2)
  \<close>
  The clock and the date parser are outside the function: the model takes their outcome,
  \<open>Some d\<close> for a date that parses and is \<open>d\<close> whole days old (\<open>timedelta.days\<close>, which
  is negative for a date in the future), \<open>None\<close> when \<open>fromisoformat\<close> raises. Python's
  binary floating point is replaced by exact rational arithmetic; the two agree after
  rounding to two decimals unless the exact value lies within about \<open>10\<^sup>-\<^sup>1\<^sup>3\<close> of a
  rounding boundary, so the model is only evaluated away from such boundaries.
\<close>

definition round2 :: "rat \<Rightarrow> rat" where
  \<comment> \<open>\<open>round(x, 2)\<close>: to the nearest hundredth, an exact tie to the even one\<close>
  "round2 x =
     (let y = x * 100; f = \<lfloor>y\<rfloor>; r = y - of_int f
      in (if r < 1 / 2 then of_int f
          else if 1 / 2 < r then of_int (f + 1)
          else if even f then of_int f else of_int (f + 1)) / 100)"

definition recency_score :: "int option \<Rightarrow> rat" where
  "recency_score age =
     (case age of
        Some days_old \<Rightarrow> max 0 (100 - of_int days_old * (333 / 100))
      | None \<Rightarrow> 0)"

definition calculate_weighted_score :: "int \<Rightarrow> int option \<Rightarrow> rat" where
  "calculate_weighted_score baseline_score age =
     round2 (of_int baseline_score * (7 / 10) + recency_score age * (3 / 10))"

text \<open>
  The formula of the specification, with the decay rate \<open>100/30\<close> it names. This
  definition follows the specification's words and is compared with the one above.
\<close>

definition spec_weighted_score :: "int \<Rightarrow> int \<Rightarrow> rat" where
  "spec_weighted_score b d =
     round2 (7 / 10 * of_int b + 3 / 10 * max 0 (100 - of_int d * 100 / 30))"

section \<open>Exceptions\<close>

text \<open>
  The exceptions the modelled code can raise. All of them are subclasses of Python's
  \<open>Exception\<close>, so an \<open>except Exception\<close> handler catches every one. A function that
  can raise returns \<open>exn + 'a\<close>, with \<open>Inl\<close> for the exception.
\<close>

datatype exn =
    ValueError | TypeError | AttributeError | IndexError | KeyError | OverflowError
  | JSONDecodeError | APIError | FileNotFoundError
  | IntegrityError | OperationalError | InterfaceError

section \<open>Strings\<close>

text \<open>
  Python \<open>str\<close> values are modelled as \<open>string\<close>, read as the UTF-8 bytes of the text.
  The model is exact on ASCII text. Beyond ASCII it keeps the bytes where Python works on
  code points: a slice counts bytes, and a percent-escape sequence that is not valid UTF-8
  is kept where \<open>unquote\<close> puts the replacement character. \<open>s.lower()\<close> follows the
  case mappings of Unicode, which the model does not have: on ASCII text it is
  \<open>ascii_lower\<close>, on any other text it is a parameter of the model.
\<close>

definition lower_char :: "char \<Rightarrow> char" where
  "lower_char c =
     (case map_of (zip ''ABCDEFGHIJKLMNOPQRSTUVWXYZ'' ''abcdefghijklmnopqrstuvwxyz'') c of
        Some d \<Rightarrow> d
      | None \<Rightarrow> c)"


definition is_ascii :: "string \<Rightarrow> bool" where
  "is_ascii s = list_all (\<lambda>c. (of_char c :: nat) < 128) s"

definition ascii_lower :: "string \<Rightarrow> string" where
  \<comment> \<open>\<open>s.lower()\<close> of an ASCII \<open>s\<close>: the letters \<open>A\<close> to \<open>Z\<close> change\<close>
  "ascii_lower s = map lower_char s"

definition str_lower :: "(string \<Rightarrow> string) \<Rightarrow> string \<Rightarrow> string" where
  \<comment> \<open>\<open>s.lower()\<close>; \<open>ulower\<close> is the library's lower-casing of text that is not ASCII\<close>
  "str_lower ulower s = (if is_ascii s then ascii_lower s else ulower s)"

fun str_in :: "string \<Rightarrow> string \<Rightarrow> bool" where
  \<comment> \<open>\<open>sub in s\<close>\<close>
  "str_in sub [] = (sub = [])"
| "str_in sub (c # cs) = (prefix sub (c # cs) \<or> str_in sub cs)"

text \<open>
  \<open>s.split(sep)\<close> for a non-empty \<open>sep\<close> (on an empty one Python raises; the code never
  passes one): the pieces between the occurrences of \<open>sep\<close>, found from the left and not
  overlapping. The result is never empty.
\<close>

fun split_from :: "string \<Rightarrow> string \<Rightarrow> string \<Rightarrow> string list" where
  "split_from sep acc [] = [rev acc]"
| "split_from sep acc (c # cs) =
     (if prefix sep (c # cs) then rev acc # split_from sep [] (drop (length sep - 1) cs)
      else split_from sep (c # acc) cs)"

definition str_split :: "string \<Rightarrow> string \<Rightarrow> string list" where
  "str_split s sep = split_from sep [] s"

definition first_of :: "'a list \<Rightarrow> exn + 'a" where
  \<comment> \<open>\<open>xs[0]\<close>\<close>
  "first_of xs = (case xs of [] \<Rightarrow> Inl IndexError | x # _ \<Rightarrow> Inr x)"

definition last_of :: "'a list \<Rightarrow> exn + 'a" where
  \<comment> \<open>\<open>xs[-1]\<close>\<close>
  "last_of xs = (case rev xs of [] \<Rightarrow> Inl IndexError | x # _ \<Rightarrow> Inr x)"

definition before_char :: "char \<Rightarrow> string \<Rightarrow> string" where
  \<comment> \<open>\<open>s.partition(c)[0]\<close>, which is \<open>s.split(c, 1)[0]\<close>\<close>
  "before_char c s = takeWhile (\<lambda>x. x \<noteq> c) s"

definition after_char :: "char \<Rightarrow> string \<Rightarrow> string" where
  \<comment> \<open>\<open>s.partition(c)[2]\<close>, which is \<open>s.split(c, 1)[1]\<close> when \<open>c\<close> occurs in \<open>s\<close>\<close>
  "after_char c s = drop 1 (dropWhile (\<lambda>x. x \<noteq> c) s)"

fun join :: "string \<Rightarrow> string list \<Rightarrow> string" where
  \<comment> \<open>\<open>sep.join(xs)\<close>\<close>
  "join sep [] = []"
| "join sep [x] = x"
| "join sep (x # y # ys) = x @ sep @ join sep (y # ys)"

section \<open>The library's URL functions\<close>

text \<open>
  \<open>clean_job_url\<close> works through \<open>urlparse\<close>, \<open>parse_qs\<close>, \<open>urlencode\<close> and
  \<open>urlunparse\<close> of \<open>urllib.parse\<close>. They are modelled after CPython 3.11. Two checks of
  \<open>urlsplit\<close> need tables the model does not have: the check of a bracketed host, which
  parses it as an IP literal, is the parameter \<open>ip_ok\<close>; the check of a non-ASCII
  authority under NFKC normalisation is left out.
\<close>

record parse_result =
  u_scheme :: string
  u_netloc :: string
  u_path :: string
  u_params :: string
  u_query :: string
  u_fragment :: string

definition uses_netloc :: "string list" where
  "uses_netloc =
     ['''', ''ftp'', ''http'', ''gopher'', ''nntp'', ''telnet'', ''imap'', ''wais'', ''file'',
      ''mms'', ''https'', ''shttp'', ''snews'', ''prospero'', ''rtsp'', ''rtsps'', ''rtspu'',
      ''rsync'', ''svn'', ''svn+ssh'', ''sftp'', ''nfs'', ''git'', ''git+ssh'', ''ws'', ''wss'']"

definition uses_params :: "string list" where
  "uses_params =
     ['''', ''ftp'', ''hdl'', ''prospero'', ''http'', ''imap'', ''https'', ''shttp'', ''rtsp'',
      ''rtsps'', ''rtspu'', ''sip'', ''sips'', ''mms'', ''sftp'', ''tel'']"

definition is_alpha :: "char \<Rightarrow> bool" where
  \<comment> \<open>\<open>c.isascii() and c.isalpha()\<close>\<close>
  "is_alpha c = (c \<in> set ''abcdefghijklmnopqrstuvwxyzABCDEFGHIJKLMNOPQRSTUVWXYZ'')"

definition scheme_char :: "char \<Rightarrow> bool" where
  "scheme_char c =
     (c \<in> set ''abcdefghijklmnopqrstuvwxyzABCDEFGHIJKLMNOPQRSTUVWXYZ0123456789+-.'')"

definition has_scheme :: "string \<Rightarrow> bool" where
  \<comment> \<open>a colon at \<open>i > 0\<close>, a letter first, and scheme characters only before the colon\<close>
  "has_scheme url =
     (CHR '':'' \<in> set url \<and> (case url of [] \<Rightarrow> False | c # _ \<Rightarrow> is_alpha c)
      \<and> list_all scheme_char (before_char CHR '':'' url))"

definition netloc_end :: "char \<Rightarrow> bool" where
  "netloc_end c = (c = CHR ''/'' \<or> c = CHR ''?'' \<or> c = CHR ''#'')"

definition split_rest ::
  "string \<Rightarrow> string \<Rightarrow> string \<Rightarrow> string \<times> string \<times> string \<times> string \<times> string" where
  \<comment> \<open>the end of \<open>urlsplit\<close>: the fragment goes first, then the query\<close>
  "split_rest scheme netloc url =
     (let u = before_char CHR ''#'' url
      in (scheme, netloc, before_char CHR ''?'' u, after_char CHR ''?'' u,
          after_char CHR ''#'' url))"

definition urlsplit ::
  "(string \<Rightarrow> bool) \<Rightarrow> string \<Rightarrow> exn + string \<times> string \<times> string \<times> string \<times> string" where
  \<comment> \<open>a scheme is made of scheme characters, all ASCII, so that its \<open>lower()\<close> is
      \<open>ascii_lower\<close>\<close>
  "urlsplit ip_ok url0 =
     (let url1 = dropWhile (\<lambda>c. (of_char c :: nat) \<le> 32) url0;
          url2 = filter (\<lambda>c. (of_char c :: nat) \<notin> {9, 10, 13}) url1;
          scheme = (if has_scheme url2 then ascii_lower (before_char CHR '':'' url2)
                    else []);
          url3 = (if has_scheme url2 then after_char CHR '':'' url2 else url2)
      in if take 2 url3 = ''//''
         then
           (let netloc = takeWhile (\<lambda>c. \<not> netloc_end c) (drop 2 url3);
                url4 = dropWhile (\<lambda>c. \<not> netloc_end c) (drop 2 url3)
            in if (CHR ''['' \<in> set netloc) \<noteq> (CHR '']'' \<in> set netloc)
               then Inl ValueError
               else if CHR ''['' \<in> set netloc
                       \<and> \<not> ip_ok (before_char CHR '']'' (after_char CHR ''['' netloc))
               then Inl ValueError
               else Inr (split_rest scheme netloc url4))
         else Inr (split_rest scheme [] url3))"

definition splitparams :: "string \<Rightarrow> string \<times> string" where
  \<comment> \<open>\<open>_splitparams\<close>: the first \<open>;\<close> of the last path segment\<close>
  "splitparams url =
     (let seg = rev (takeWhile (\<lambda>c. c \<noteq> CHR ''/'') (rev url));
          dir = take (length url - length seg) url
      in if CHR '';'' \<in> set seg
         then (dir @ before_char CHR '';'' seg, after_char CHR '';'' seg)
         else (url, []))"

definition urlparse :: "(string \<Rightarrow> bool) \<Rightarrow> string \<Rightarrow> exn + parse_result" where
  "urlparse ip_ok url =
     (case urlsplit ip_ok url of
        Inl e \<Rightarrow> Inl e
      | Inr (scheme, netloc, u, query, fragment) \<Rightarrow>
          (let (path, params) =
                 (if scheme \<in> set uses_params \<and> CHR '';'' \<in> set u then splitparams u
                  else (u, []))
           in Inr \<lparr>u_scheme = scheme, u_netloc = netloc, u_path = path, u_params = params,
                    u_query = query, u_fragment = fragment\<rparr>))"

definition urlunsplit :: "string \<Rightarrow> string \<Rightarrow> string \<Rightarrow> string \<Rightarrow> string \<Rightarrow> string" where
  "urlunsplit scheme netloc url0 query fragment =
     (let url1 = (if netloc \<noteq> [] \<or> (scheme \<noteq> [] \<and> scheme \<in> set uses_netloc)
                     \<or> take 2 url0 = ''//''
                  then ''//'' @ netloc @ (if url0 \<noteq> [] \<and> take 1 url0 \<noteq> ''/''
                                          then ''/'' @ url0 else url0)
                  else url0);
          url2 = (if scheme \<noteq> [] then scheme @ '':'' @ url1 else url1);
          url3 = (if query \<noteq> [] then url2 @ ''?'' @ query else url2)
      in if fragment \<noteq> [] then url3 @ ''#'' @ fragment else url3)"

definition urlunparse ::
  "string \<Rightarrow> string \<Rightarrow> string \<Rightarrow> string \<Rightarrow> string \<Rightarrow> string \<Rightarrow> string" where
  "urlunparse scheme netloc url params query fragment =
     urlunsplit scheme netloc (if params \<noteq> [] then url @ '';'' @ params else url)
       query fragment"

subsection \<open>Query strings\<close>

definition hex_value :: "char \<Rightarrow> nat option" where
  "hex_value c =
     map_of (zip ''0123456789ABCDEFabcdef''
               [0, 1, 2, 3, 4, 5, 6, 7, 8, 9, 10, 11, 12, 13, 14, 15, 10, 11, 12, 13, 14, 15]) c"

fun unquote :: "string \<Rightarrow> string" where
  \<comment> \<open>\<open>%xx\<close> becomes the byte \<open>xx\<close>; a \<open>%\<close> with no two hex digits after it stays\<close>
  "unquote (c # h # l # cs) =
     (if c = CHR ''%''
      then (case (hex_value h, hex_value l) of
              (Some a, Some b) \<Rightarrow> char_of (16 * a + b) # unquote cs
            | _ \<Rightarrow> c # unquote (h # l # cs))
      else c # unquote (h # l # cs))"
| "unquote cs = cs"

definition unquote_plus :: "string \<Rightarrow> string" where
  "unquote_plus s = unquote (map (\<lambda>c. if c = CHR ''+'' then CHR '' '' else c) s)"

definition parse_qsl :: "string \<Rightarrow> (string \<times> string) list" where
  \<comment> \<open>fields between \<open>&\<close>; a field with no \<open>=\<close> or with nothing after it is dropped\<close>
  "parse_qsl qs =
     (if qs = [] then []
      else concat (map (\<lambda>name_value.
             if name_value \<noteq> [] \<and> after_char CHR ''='' name_value \<noteq> []
             then [(unquote_plus (before_char CHR ''='' name_value),
                    unquote_plus (after_char CHR ''='' name_value))]
             else [])
           (str_split qs ''&'')))"

text \<open>A \<open>dict\<close> from names to lists of values, in the order the names were first seen.\<close>

type_synonym qdict = "(string \<times> string list) list"

fun dict_add :: "qdict \<Rightarrow> string \<Rightarrow> string \<Rightarrow> qdict" where
  "dict_add [] k v = [(k, [v])]"
| "dict_add ((k', vs) # d) k v =
     (if k' = k then (k', vs @ [v]) # d else (k', vs) # dict_add d k v)"

definition parse_qs :: "string \<Rightarrow> qdict" where
  "parse_qs qs = foldl (\<lambda>d (k, v). dict_add d k v) [] (parse_qsl qs)"

definition always_safe :: "char \<Rightarrow> bool" where
  "always_safe c =
     (c \<in> set ''ABCDEFGHIJKLMNOPQRSTUVWXYZabcdefghijklmnopqrstuvwxyz0123456789_.-~'')"

definition hex_digit :: "nat \<Rightarrow> char" where
  "hex_digit n = ''0123456789ABCDEF'' ! (n mod 16)"

definition quote_plus :: "string \<Rightarrow> string" where
  "quote_plus s =
     concat (map (\<lambda>c. if always_safe c then [c]
                       else if c = CHR '' '' then ''+''
                       else [CHR ''%'', hex_digit (of_char c div 16), hex_digit (of_char c)])
                 s)"

definition urlencode :: "qdict \<Rightarrow> string" where
  \<comment> \<open>\<open>urlencode(query, doseq=True)\<close> on a dict of lists of strings\<close>
  "urlencode d =
     join ''&'' (concat (map (\<lambda>(k, vs). map (\<lambda>v. quote_plus k @ ''='' @ quote_plus v) vs) d))"

section \<open>URL cleaning: \<open>clean_job_url\<close>\<close>

text \<open>
  \<^verbatim>\<open>
  def clean_job_url(url: str) -> str:
      if not url:
          return url
      parsed = urlparse(url)
      if 'linkedin.com' in parsed.netloc:
          if '/jobs/view/' in parsed.path:
              job_id = parsed.path.split('/jobs/view/')[-1].split('?')[0].split('/')[0]
              return f"https://www.linkedin.com/jobs/view/{job_id}"
          elif 'currentJobId=' in parsed.query:
              params = parse_qs(parsed.query)
              job_id = params.get('currentJobId', [''])[0]
              if job_id:
                  return f"https://www.linkedin.com/jobs/view/{job_id}"
      elif 'indeed.com' in parsed.netloc:
          params = parse_qs(parsed.query)
          if 'jk' in params:
              return f"https://www.indeed.com/viewjob?jk={params['jk'][0]}"
          elif 'vjk' in params:
              return f"https://www.indeed.com/viewjob?jk={params['vjk'][0]}"
      if parsed.query:
          params = parse_qs(parsed.query)
          tracking_params = ['trackingId', 'refId', 'lipi', 'midToken', 'midSig', 'trk',
              'trkEmail', 'eid', 'otpToken', 'utm_source', 'utm_medium',
              'utm_campaign', 'ref', 'source']
          cleaned_params = {k: v for k, v in params.items() if k not in tracking_params}
          if cleaned_params:
              new_query = urlencode(cleaned_params, doseq=True)
              return urlunparse((parsed.scheme, parsed.netloc, parsed.path, '', new_query, ''))
          else:
              return urlunparse((parsed.scheme, parsed.netloc, parsed.path, '', '', ''))
      return url
  \<close>
  There is no \<open>try\<close> in the function: what \<open>urlparse\<close> raises reaches the caller.
\<close>

definition tracking_params :: "string list" where
  "tracking_params =
     [''trackingId'', ''refId'', ''lipi'', ''midToken'', ''midSig'', ''trk'', ''trkEmail'',
      ''eid'', ''otpToken'', ''utm_source'', ''utm_medium'', ''utm_campaign'', ''ref'',
      ''source'']"

definition view_job_id :: "string \<Rightarrow> exn + string" where
  \<comment> \<open>\<open>path.split('/jobs/view/')[-1].split('?')[0].split('/')[0]\<close>\<close>
  "view_job_id path =
     (case last_of (str_split path ''/jobs/view/'') of
        Inl e \<Rightarrow> Inl e
      | Inr a \<Rightarrow>
          (case first_of (str_split a ''?'') of
             Inl e \<Rightarrow> Inl e
           | Inr b \<Rightarrow> first_of (str_split b ''/'')))"

text \<open>
  The two job-board branches: \<open>Inr (Some u)\<close> when one of them returns \<open>u\<close>, \<open>Inr None\<close>
  when control reaches the removal of the tracking parameters.
\<close>

definition job_board_url :: "parse_result \<Rightarrow> exn + string option" where
  "job_board_url parsed =
     (if str_in ''linkedin.com'' (u_netloc parsed)
      then
        (if str_in ''/jobs/view/'' (u_path parsed)
         then (case view_job_id (u_path parsed) of
                 Inl e \<Rightarrow> Inl e
               | Inr jid \<Rightarrow> Inr (Some (''https://www.linkedin.com/jobs/view/'' @ jid)))
         else if str_in ''currentJobId='' (u_query parsed)
         then (case first_of (case map_of (parse_qs (u_query parsed)) ''currentJobId'' of
                                Some vs \<Rightarrow> vs
                              | None \<Rightarrow> ['''']) of
                 Inl e \<Rightarrow> Inl e
               | Inr jid \<Rightarrow>
                   if jid \<noteq> [] then Inr (Some (''https://www.linkedin.com/jobs/view/'' @ jid))
                   else Inr None)
         else Inr None)
      else if str_in ''indeed.com'' (u_netloc parsed)
      then
        (let params = parse_qs (u_query parsed)
         in case map_of params ''jk'' of
              Some vs \<Rightarrow>
                (case first_of vs of
                   Inl e \<Rightarrow> Inl e
                 | Inr jk \<Rightarrow> Inr (Some (''https://www.indeed.com/viewjob?jk='' @ jk)))
            | None \<Rightarrow>
                (case map_of params ''vjk'' of
                   Some vs \<Rightarrow>
                     (case first_of vs of
                        Inl e \<Rightarrow> Inl e
                      | Inr jk \<Rightarrow> Inr (Some (''https://www.indeed.com/viewjob?jk='' @ jk)))
                 | None \<Rightarrow> Inr None))
      else Inr None)"

definition strip_tracking :: "string \<Rightarrow> parse_result \<Rightarrow> string" where
  "strip_tracking url parsed =
     (if u_query parsed \<noteq> []
      then
        (let params = parse_qs (u_query parsed);
             cleaned_params = filter (\<lambda>(k, v). k \<notin> set tracking_params) params
         in if cleaned_params \<noteq> []
            then urlunparse (u_scheme parsed) (u_netloc parsed) (u_path parsed) []
                   (urlencode cleaned_params) []
            else urlunparse (u_scheme parsed) (u_netloc parsed) (u_path parsed) [] [] [])
      else url)"

definition clean_job_url :: "(string \<Rightarrow> bool) \<Rightarrow> string \<Rightarrow> exn + string" where
  "clean_job_url ip_ok url =
     (if url = [] then Inr url
      else
        (case urlparse ip_ok url of
           Inl e \<Rightarrow> Inl e
         | Inr parsed \<Rightarrow>
             (case job_board_url parsed of
                Inl e \<Rightarrow> Inl e
              | Inr (Some u) \<Rightarrow> Inr u
              | Inr None \<Rightarrow> Inr (strip_tracking url parsed))))"

text \<open>Applying the function to its own result, as a caller that cleans twice does.\<close>

definition clean_twice :: "(string \<Rightarrow> bool) \<Rightarrow> string \<Rightarrow> exn + string" where
  "clean_twice ip_ok url =
     (case clean_job_url ip_ok url of Inl e \<Rightarrow> Inl e | Inr u \<Rightarrow> clean_job_url ip_ok u)"

section \<open>Identity: \<open>generate_job_id\<close>\<close>

subsection \<open>SHA-256\<close>

text \<open>
  \<open>hashlib.sha256\<close>, after FIPS 180-4. A 32-bit word is a \<open>nat\<close> below \<open>2\<^sup>3\<^sup>2\<close>, with
  the wrap-around of its addition written out. The message is padded to a multiple of
  64 bytes; each block of 16 words passes through 64 rounds, the message schedule being
  computed on the way in a window of the last 16 words.
\<close>

definition add32 :: "nat \<Rightarrow> nat \<Rightarrow> nat" where
  "add32 x y = (x + y) mod 4294967296"

definition rotr :: "nat \<Rightarrow> nat \<Rightarrow> nat" where
  "rotr n x = x div 2 ^ n + (x mod 2 ^ n) * 2 ^ (32 - n)"

definition shr :: "nat \<Rightarrow> nat \<Rightarrow> nat" where
  "shr n x = x div 2 ^ n"

definition not32 :: "nat \<Rightarrow> nat" where
  "not32 x = 4294967295 - x"

definition Ch :: "nat \<Rightarrow> nat \<Rightarrow> nat \<Rightarrow> nat" where
  "Ch x y z = (x AND y) XOR (not32 x AND z)"

definition Maj :: "nat \<Rightarrow> nat \<Rightarrow> nat \<Rightarrow> nat" where
  "Maj x y z = (x AND y) XOR (x AND z) XOR (y AND z)"

definition Sigma0 :: "nat \<Rightarrow> nat" where
  "Sigma0 x = rotr 2 x XOR rotr 13 x XOR rotr 22 x"

definition Sigma1 :: "nat \<Rightarrow> nat" where
  "Sigma1 x = rotr 6 x XOR rotr 11 x XOR rotr 25 x"

definition sigma0 :: "nat \<Rightarrow> nat" where
  "sigma0 x = rotr 7 x XOR rotr 18 x XOR shr 3 x"

definition sigma1 :: "nat \<Rightarrow> nat" where
  "sigma1 x = rotr 17 x XOR rotr 19 x XOR shr 10 x"

definition K256 :: "nat list" where
  "K256 =
     [0x428A2F98, 0x71374491, 0xB5C0FBCF, 0xE9B5DBA5, 0x3956C25B, 0x59F111F1, 0x923F82A4,
      0xAB1C5ED5, 0xD807AA98, 0x12835B01, 0x243185BE, 0x550C7DC3, 0x72BE5D74, 0x80DEB1FE,
      0x9BDC06A7, 0xC19BF174, 0xE49B69C1, 0xEFBE4786, 0x0FC19DC6, 0x240CA1CC, 0x2DE92C6F,
      0x4A7484AA, 0x5CB0A9DC, 0x76F988DA, 0x983E5152, 0xA831C66D, 0xB00327C8, 0xBF597FC7,
      0xC6E00BF3, 0xD5A79147, 0x06CA6351, 0x14292967, 0x27B70A85, 0x2E1B2138, 0x4D2C6DFC,
      0x53380D13, 0x650A7354, 0x766A0ABB, 0x81C2C92E, 0x92722C85, 0xA2BFE8A1, 0xA81A664B,
      0xC24B8B70, 0xC76C51A3, 0xD192E819, 0xD6990624, 0xF40E3585, 0x106AA070, 0x19A4C116,
      0x1E376C08, 0x2748774C, 0x34B0BCB5, 0x391C0CB3, 0x4ED8AA4A, 0x5B9CCA4F, 0x682E6FF3,
      0x748F82EE, 0x78A5636F, 0x84C87814, 0x8CC70208, 0x90BEFFFA, 0xA4506CEB, 0xBEF9A3F7,
      0xC67178F2]"

definition H256 :: "nat list" where
  "H256 =
     [0x6A09E667, 0xBB67AE85, 0x3C6EF372, 0xA54FF53A, 0x510E527F, 0x9B05688C, 0x1F83D9AB,
      0x5BE0CD19]"

fun be_words :: "nat list \<Rightarrow> nat list" where
  \<comment> \<open>four bytes make a word, the first byte the most significant\<close>
  "be_words (a # b # c # d # bs) = (((a * 256 + b) * 256 + c) * 256 + d) # be_words bs"
| "be_words bs = []"

definition pad :: "nat list \<Rightarrow> nat list" where
  \<comment> \<open>the message bytes, a byte \<open>0x80\<close>, zero bytes up to 56 modulo 64, and the length in
      bits as a 64-bit number; the result in words\<close>
  "pad m =
     be_words (m @ [128] @ replicate ((119 - length m mod 64) mod 64) 0)
       @ [(8 * length m) div 4294967296 mod 4294967296, (8 * length m) mod 4294967296]"

definition sha_round :: "nat \<Rightarrow> nat \<Rightarrow> nat list \<Rightarrow> nat list" where
  \<comment> \<open>one round on the state \<open>[a, b, c, d, e, f, g, h]\<close>\<close>
  "sha_round k w st =
     (let t1 = add32 (add32 (add32 (add32 (st ! 7) (Sigma1 (st ! 4)))
                        (Ch (st ! 4) (st ! 5) (st ! 6))) k) w;
          t2 = add32 (Sigma0 (st ! 0)) (Maj (st ! 0) (st ! 1) (st ! 2))
      in [add32 t1 t2, st ! 0, st ! 1, st ! 2, add32 (st ! 3) t1, st ! 4, st ! 5, st ! 6])"

definition next_window :: "nat list \<Rightarrow> nat list" where
  \<comment> \<open>\<open>W\<^sub>t = \<sigma>\<^sub>1(W\<^sub>t\<^sub>-\<^sub>2) + W\<^sub>t\<^sub>-\<^sub>7 + \<sigma>\<^sub>0(W\<^sub>t\<^sub>-\<^sub>1\<^sub>5) + W\<^sub>t\<^sub>-\<^sub>1\<^sub>6\<close> enters, \<open>W\<^sub>t\<^sub>-\<^sub>1\<^sub>6\<close> leaves\<close>
  "next_window w =
     tl w @ [add32 (add32 (sigma1 (w ! 14)) (w ! 9)) (add32 (sigma0 (w ! 1)) (w ! 0))]"

fun rounds :: "nat list \<Rightarrow> nat list \<Rightarrow> nat list \<Rightarrow> nat list" where
  "rounds [] w st = st"
| "rounds (k # ks) w st = rounds ks (next_window w) (sha_round k (w ! 0) st)"

definition compress :: "nat list \<Rightarrow> nat list \<Rightarrow> nat list" where
  "compress st block = map (\<lambda>(x, y). add32 x y) (zip st (rounds K256 block st))"

fun sha_blocks :: "nat list \<Rightarrow> nat list \<Rightarrow> nat list" where
  "sha_blocks st (w0 # w1 # w2 # w3 # w4 # w5 # w6 # w7 # w8 # w9 # w10 # w11 # w12 # w13
                    # w14 # w15 # ws) =
     sha_blocks
       (compress st [w0, w1, w2, w3, w4, w5, w6, w7, w8, w9, w10, w11, w12, w13, w14, w15])
       ws"
| "sha_blocks st ws = st"

definition sha256 :: "nat list \<Rightarrow> nat list" where
  "sha256 m = sha_blocks H256 (pad m)"

definition hex_word :: "nat \<Rightarrow> string" where
  "hex_word w =
     map (\<lambda>e. ''0123456789abcdef'' ! (w div 16 ^ e mod 16)) [7, 6, 5, 4, 3, 2, 1, 0]"

definition sha256_hexdigest :: "string \<Rightarrow> string" where
  \<comment> \<open>\<open>hashlib.sha256(s.encode()).hexdigest()\<close>\<close>
  "sha256_hexdigest s = concat (map hex_word (sha256 (map of_char s)))"

subsection \<open>The identifier\<close>

text \<open>
  \<^verbatim>\<open>
  def generate_job_id(url, title, company):
      # Use cleaned URL for consistent ID generation
      clean_url = clean_job_url(url)
      content = f"{clean_url}:{title}:{company}".lower()
      return hashlib.sha256(content.encode()).hexdigest()[:16]
  \<close>
\<close>

definition job_id_content ::
  "(string \<Rightarrow> string) \<Rightarrow> string \<Rightarrow> string \<Rightarrow> string \<Rightarrow> string" where
  "job_id_content ulower clean_url title company =
     str_lower ulower (clean_url @ '':'' @ title @ '':'' @ company)"

definition generate_job_id ::
  "(string \<Rightarrow> string) \<Rightarrow> (string \<Rightarrow> bool) \<Rightarrow> string \<Rightarrow> string \<Rightarrow> string
     \<Rightarrow> exn + string" where
  \<comment> \<open>\<open>ulower\<close>: the lower-casing of non-ASCII text; \<open>ip_ok\<close>: the check of a bracketed host\<close>
  "generate_job_id ulower ip_ok url title company =
     (case clean_job_url ip_ok url of
        Inl e \<Rightarrow> Inl e
      | Inr clean_url \<Rightarrow>
          Inr (take 16 (sha256_hexdigest (job_id_content ulower clean_url title company))))"


text \<open>
  The case mappings of the library on text made of ASCII characters and the dotless
  \<open>i\<close> (U+0131, the bytes \<open>C4 B1\<close>): \<open>lower()\<close> leaves the dotless \<open>i\<close> as it is,
  \<open>upper()\<close> makes it the ASCII letter \<open>I\<close>.
\<close>

definition dotless_lower :: "string \<Rightarrow> string" where
  "dotless_lower s = map lower_char s"


section \<open>Values shared by the operations\<close>

text \<open>What \<open>json.loads\<close> returns; an object keeps its members as the parsed \<open>dict\<close> does.\<close>

datatype json =
    JNull | JBool bool | JInt int | JFloat rat | JStr string
  | JArr "json list" | JObj "(string \<times> json) list"

fun truthy :: "json \<Rightarrow> bool" where
  "truthy JNull = False"
| "truthy (JBool b) = b"
| "truthy (JInt i) = (i \<noteq> 0)"
| "truthy (JFloat x) = (x \<noteq> 0)"
| "truthy (JStr s) = (s \<noteq> [])"
| "truthy (JArr xs) = (xs \<noteq> [])"
| "truthy (JObj kvs) = (kvs \<noteq> [])"

text \<open>\<open>result.get(key, default)\<close>: raises \<open>AttributeError\<close> on a value that is no dict.\<close>

fun dict_get :: "json \<Rightarrow> string \<Rightarrow> json \<Rightarrow> exn + json" where
  "dict_get (JObj kvs) k d = Inr (case map_of kvs k of Some v \<Rightarrow> v | None \<Rightarrow> d)"
| "dict_get _ k d = Inl AttributeError"

text \<open>
  A candidate job, as the source parsers build it (a dict with these keys).
  Key \<open>description\<close> is present only in what \<open>fetch_wwr_jobs\<close> builds.
\<close>

record job =
  job_id :: string
  title :: string
  company :: string
  location :: string
  url :: string
  source :: string
  raw_text :: string
  created_at :: string
  email_date :: string
  description :: "string option"

section \<open>The feed parser: \<open>fetch_wwr_jobs\<close>\<close>

text \<open>
  \<^verbatim>\<open>
  def fetch_wwr_jobs(days_back=7):
      jobs = []
      cutoff = datetime.now() - timedelta(days=days_back)
      for feed_url in WWR_FEEDS:
          try:
              req = urllib.request.Request(feed_url, headers={'User-Agent': 'JobTracker/1.0'})
              with urllib.request.urlopen(req, timeout=10) as response:
                  xml_data = response.read()
              root = ET.fromstring(xml_data)
              for item in root.findall('.//item'):
                  title_elem = item.find('title')
                  link_elem = item.find('link')
                  desc_elem = item.find('description')
                  pub_date_elem = item.find('pubDate')
                  if not title_elem or not link_elem:
                      continue
                  title = title_elem.text or ''
                  url = clean_job_url(link_elem.text or '')
                  description = desc_elem.text if desc_elem is not None else ''
                  company = ''
                  job_title = title
                  if ':' in title:
                      parts = title.split(':', 1)
                      company = parts[0].strip()
                      job_title = parts[1].strip()
                  pub_date = datetime.now().isoformat()
                  if pub_date_elem is not None and pub_date_elem.text:
                      try:
                          from email.utils import parsedate_to_datetime
                          dt = parsedate_to_datetime(pub_date_elem.text)
                          if dt < cutoff:
                              continue
                          pub_date = dt.isoformat()
                      except:
                          pass
                  if description:
                      soup = BeautifulSoup(description, 'html.parser')
                      description = soup.get_text(' ', strip=True)[:2000]
                  job_id = generate_job_id(url, job_title, company)
                  jobs.append({'job_id': job_id, 'title': job_title[:200],
                      'company': company[:100], 'location': 'Remote', 'url': url,
                      'source': 'weworkremotely', 'raw_text': description or title,
                      'description': description, 'created_at': pub_date,
                      'email_date': pub_date})
          except Exception as e:
              print(f"WWR feed error ({feed_url}): {e}")
      return jobs
  \<close>
  An item is given by the four elements \<open>item.find\<close> looks up. An element of
  \<open>xml.etree.ElementTree\<close> is false in a condition when it has no child element, which
  is what \<open>not title_elem\<close> tests. The model takes from outside: the clock, the outcome of
  the inner \<open>try\<close> on the publication date, the text \<open>BeautifulSoup\<close> extracts, the
  library's check of a bracketed host and its lower-casing of non-ASCII text. A feed is the outcome of fetching and parsing it:
  its items, or the exception that the \<open>except\<close> of the feed catches.
\<close>

record xml_elem =
  elem_text :: "string option"
  elem_children :: nat

record rss_item =
  item_title :: "xml_elem option"
  item_link :: "xml_elem option"
  item_description :: "xml_elem option"
  item_pubDate :: "xml_elem option"

datatype pub_date =
    Too_old
  | Published string
  | Unparsed

record feed_env =
  feed_now :: string
  parse_pub_date :: "string \<Rightarrow> pub_date"
  html_text :: "string \<Rightarrow> string"
  feed_host_ok :: "string \<Rightarrow> bool"
  feed_lower :: "string \<Rightarrow> string"

definition elem_true :: "xml_elem option \<Rightarrow> bool" where
  \<comment> \<open>the truth value of what \<open>item.find\<close> returned\<close>
  "elem_true e = (case e of None \<Rightarrow> False | Some x \<Rightarrow> elem_children x \<noteq> 0)"

definition text_or_empty :: "xml_elem option \<Rightarrow> string" where
  \<comment> \<open>\<open>elem.text or ''\<close>\<close>
  "text_or_empty e =
     (case e of None \<Rightarrow> [] | Some x \<Rightarrow> (case elem_text x of None \<Rightarrow> [] | Some t \<Rightarrow> t))"

definition is_space :: "char \<Rightarrow> bool" where
  "is_space c = ((of_char c :: nat) \<in> {9, 10, 11, 12, 13, 28, 29, 30, 31, 32})"

definition strip :: "string \<Rightarrow> string" where
  \<comment> \<open>\<open>s.strip()\<close>\<close>
  "strip s = rev (dropWhile is_space (rev (dropWhile is_space s)))"

definition item_pub_date :: "feed_env \<Rightarrow> xml_elem option \<Rightarrow> string option" where
  \<comment> \<open>\<open>None\<close> for \<open>continue\<close>, else the value of \<open>pub_date\<close>\<close>
  "item_pub_date env e =
     (case e of
        None \<Rightarrow> Some (feed_now env)
      | Some x \<Rightarrow>
          (case elem_text x of
             None \<Rightarrow> Some (feed_now env)
           | Some t \<Rightarrow>
               if t = [] then Some (feed_now env)
               else (case parse_pub_date env t of
                       Too_old \<Rightarrow> None
                     | Published stamp \<Rightarrow> Some stamp
                     | Unparsed \<Rightarrow> Some (feed_now env))))"

definition item_description_text :: "feed_env \<Rightarrow> xml_elem option \<Rightarrow> string option" where
  \<comment> \<open>\<open>description\<close> after the \<open>if description:\<close>; \<open>None\<close> is Python's \<open>None\<close>\<close>
  "item_description_text env e =
     (case e of
        None \<Rightarrow> Some []
      | Some x \<Rightarrow>
          (case elem_text x of
             None \<Rightarrow> None
           | Some d \<Rightarrow> if d \<noteq> [] then Some (take 2000 (html_text env d)) else Some d))"

definition text_or :: "string option \<Rightarrow> string \<Rightarrow> string" where
  \<comment> \<open>\<open>description or title\<close>\<close>
  "text_or d t = (case d of None \<Rightarrow> t | Some s \<Rightarrow> if s \<noteq> [] then s else t)"

text \<open>One turn of the inner loop: \<open>Inr None\<close> for \<open>continue\<close>, \<open>Inr (Some j)\<close> for \<open>append\<close>.\<close>

definition wwr_item :: "feed_env \<Rightarrow> rss_item \<Rightarrow> exn + job option" where
  "wwr_item env item =
     (if \<not> elem_true (item_title item) \<or> \<not> elem_true (item_link item) then Inr None
      else
        (let t = text_or_empty (item_title item)
         in case clean_job_url (feed_host_ok env) (text_or_empty (item_link item)) of
              Inl e \<Rightarrow> Inl e
            | Inr u \<Rightarrow>
                (let comp = (if CHR '':'' \<in> set t then strip (before_char CHR '':'' t) else []);
                     job_title = (if CHR '':'' \<in> set t then strip (after_char CHR '':'' t)
                                  else t)
                 in case item_pub_date env (item_pubDate item) of
                      None \<Rightarrow> Inr None
                    | Some pub \<Rightarrow>
                        (let d = item_description_text env (item_description item)
                         in case generate_job_id (feed_lower env) (feed_host_ok env) u
                                   job_title comp of
                              Inl e \<Rightarrow> Inl e
                            | Inr jid \<Rightarrow>
                                Inr (Some \<lparr>job_id = jid, title = take 200 job_title,
                                           company = take 100 comp, location = ''Remote'',
                                           url = u, source = ''weworkremotely'',
                                           raw_text = text_or d t, created_at = pub,
                                           email_date = pub, description = d\<rparr>)))))"

fun feed_jobs :: "feed_env \<Rightarrow> rss_item list \<Rightarrow> job list \<Rightarrow> job list" where
  \<comment> \<open>the inner loop; an exception ends it, and what was appended stays\<close>
  "feed_jobs env [] jobs = jobs"
| "feed_jobs env (item # items) jobs =
     (case wwr_item env item of
        Inl e \<Rightarrow> jobs
      | Inr None \<Rightarrow> feed_jobs env items jobs
      | Inr (Some j) \<Rightarrow> feed_jobs env items (jobs @ [j]))"

fun feeds_jobs :: "feed_env \<Rightarrow> (exn + rss_item list) list \<Rightarrow> job list \<Rightarrow> job list" where
  \<comment> \<open>the outer loop over the feeds of \<open>WWR_FEEDS\<close>, from \<open>jobs\<close> so far\<close>
  "feeds_jobs env [] jobs = jobs"
| "feeds_jobs env (feed # feeds) jobs =
     (case feed of
        Inl e \<Rightarrow> feeds_jobs env feeds jobs
      | Inr items \<Rightarrow> feeds_jobs env feeds (feed_jobs env items jobs))"

definition fetch_wwr_jobs :: "feed_env \<Rightarrow> (exn + rss_item list) list \<Rightarrow> job list" where
  "fetch_wwr_jobs env feeds = feeds_jobs env feeds []"

text \<open>An item with a title of 2001 characters and no description.\<close>

definition long_title_item :: rss_item where
  "long_title_item =
     \<lparr>item_title = Some \<lparr>elem_text = Some (replicate 2001 CHR ''x''), elem_children = 1\<rparr>,
      item_link = Some \<lparr>elem_text = Some ''https://weworkremotely.com/remote-jobs/acme-123'',
                         elem_children = 1\<rparr>,
      item_description = None, item_pubDate = None\<rparr>"

section \<open>Baseline filter: \<open>ai_filter_and_score\<close>\<close>

text \<open>
  \<^verbatim>\<open>
  def ai_filter_and_score(job, resume_text):
      client = anthropic.Anthropic()
      prompt = f"""... {resume_text} ... {job['title']} ... {job['company']} ...
                   {job['location']} ... {job['raw_text'][:500]} ..."""
      try:
          response = client.messages.create(model=..., max_tokens=500,
                                            messages=[{"role": "user", "content": prompt}])
          match = re.search(r'\{[\s\S]*\}', response.content[0].text)
          if match:
              result = json.loads(match.group())
              return (result.get('keep', False),
                      result.get('baseline_score', 0),
                      result.get('filter_reason', 'unknown'))
      except Exception as e:
          print(f"AI filter error: {e}")
      return (True, 30, "filter error - kept by default")
  \<close>
  A prompt is a fixed template around interpolated values, so it is modelled by the
  name of its template and these values. The generative-text backend and \<open>json.loads\<close>
  are external: the model takes them as the parameters \<open>create\<close> (the text of the first
  content block of the response, or the exception raised by the call or by reading that
  block) and \<open>loads\<close>.
  What precedes the \<open>try\<close> is taken not to raise: building the client does not
  contact the backend, and a candidate has every key the prompt reads.
\<close>

record prompt =
  p_task :: string
  p_resume :: string
  p_title :: string
  p_company :: string
  p_location :: string
  p_details :: string

type_synonym backend = "prompt \<Rightarrow> exn + string"
type_synonym loads_fn = "string \<Rightarrow> exn + json"
type_synonym filter_result = "json \<times> json \<times> json"

definition filter_prompt :: "job \<Rightarrow> string \<Rightarrow> prompt" where
  "filter_prompt j resume_text =
     \<lparr>p_task = ''filter'', p_resume = resume_text, p_title = title j,
      p_company = company j, p_location = location j,
      p_details = take 500 (raw_text j)\<rparr>"

definition json_span :: "string \<Rightarrow> string option" where
  \<comment> \<open>\<open>re.search(r'\{[\s\S]*\}', text)\<close>: from the first \<open>{\<close> to the last \<open>}\<close> after it\<close>
  "json_span text =
     (let m = rev (dropWhile (\<lambda>c. c \<noteq> CHR ''}'')
                     (rev (dropWhile (\<lambda>c. c \<noteq> CHR ''{'') text)))
      in if m = [] then None else Some m)"

definition filter_fallback :: filter_result where
  "filter_fallback = (JBool True, JInt 30, JStr ''filter error - kept by default'')"

text \<open>The body of the \<open>try\<close>: \<open>Inr None\<close> when it ends without returning.\<close>

definition filter_try :: "backend \<Rightarrow> loads_fn \<Rightarrow> prompt \<Rightarrow> exn + filter_result option" where
  "filter_try create loads p =
     (case create p of
        Inl e \<Rightarrow> Inl e
      | Inr text \<Rightarrow>
          (case json_span text of
             None \<Rightarrow> Inr None
           | Some m \<Rightarrow>
               (case loads m of
                  Inl e \<Rightarrow> Inl e
                | Inr result \<Rightarrow>
                    (case dict_get result ''keep'' (JBool False) of
                       Inl e \<Rightarrow> Inl e
                     | Inr keep \<Rightarrow>
                         (case dict_get result ''baseline_score'' (JInt 0) of
                            Inl e \<Rightarrow> Inl e
                          | Inr baseline \<Rightarrow>
                              (case dict_get result ''filter_reason'' (JStr ''unknown'') of
                                 Inl e \<Rightarrow> Inl e
                               | Inr reason \<Rightarrow> Inr (Some (keep, baseline, reason))))))))"

definition ai_filter_and_score ::
  "backend \<Rightarrow> loads_fn \<Rightarrow> job \<Rightarrow> string \<Rightarrow> exn + filter_result" where
  "ai_filter_and_score create loads j resume_text =
     (case filter_try create loads (filter_prompt j resume_text) of
        Inr (Some r) \<Rightarrow> Inr r
      | Inr None \<Rightarrow> Inr filter_fallback
      | Inl e \<Rightarrow> Inr filter_fallback)"

section \<open>The jobs table\<close>

text \<open>
  \<open>init_db\<close> creates table \<open>jobs\<close> with \<open>job_id TEXT PRIMARY KEY\<close> and the columns
  below. The table is modelled as the list of its rows; the primary key is enforced where
  SQLite enforces it, by \<open>INSERT\<close> raising \<open>IntegrityError\<close>. A column that can hold
  \<open>NULL\<close> or a value bound from decoded JSON is a \<open>sqlval\<close>; SQLite's conversion of a
  stored value to the affinity of its column (text \<open>'85'\<close> to integer 85) is not modelled.
\<close>

datatype sqlval = SNull | SInt int | SReal rat | SText string

record row =
  col_job_id :: string
  col_title :: string
  col_company :: string
  col_location :: string
  col_url :: string
  col_source :: string
  col_status :: sqlval
  col_score :: sqlval
  col_baseline_score :: sqlval
  col_analysis :: sqlval
  col_cover_letter :: sqlval
  col_notes :: sqlval
  col_raw_text :: string
  col_description :: sqlval
  col_created_at :: string
  col_updated_at :: string
  col_email_date :: sqlval
  col_is_filtered :: int

text \<open>
  Binding a Python value to a \<open>?\<close> of a statement: the \<open>sqlite3\<close> module takes \<open>None\<close>,
  \<open>int\<close> (64-bit), \<open>float\<close> and \<open>str\<close>, and raises on a list or a dict.
\<close>

fun bind :: "json \<Rightarrow> exn + sqlval" where
  "bind JNull = Inr SNull"
| "bind (JBool b) = Inr (SInt (if b then 1 else 0))"
| "bind (JInt i) =
     (if - (2 ^ 63) \<le> i \<and> i < 2 ^ 63 then Inr (SInt i) else Inl OverflowError)"
| "bind (JFloat x) = Inr (SReal x)"
| "bind (JStr s) = Inr (SText s)"
| "bind (JArr xs) = Inl InterfaceError"
| "bind (JObj kvs) = Inl InterfaceError"

definition job_ids :: "row list \<Rightarrow> string list" where
  "job_ids rows = map col_job_id rows"

definition exists_job :: "row list \<Rightarrow> string \<Rightarrow> bool" where
  \<comment> \<open>\<open>SELECT 1 FROM jobs WHERE job_id = ?\<close> finds a row\<close>
  "exists_job rows jid = (jid \<in> set (job_ids rows))"

definition insert_row :: "row list \<Rightarrow> row \<Rightarrow> exn + row list" where
  "insert_row rows r =
     (if exists_job rows (col_job_id r) then Inl IntegrityError else Inr (rows @ [r]))"

text \<open>
  What the requests read from outside the table: the generative-text backend,
  \<open>json.loads\<close>, \<open>json.dumps\<close>, \<open>str(e)\<close> of a caught exception, the clock
  (\<open>datetime.now().isoformat()\<close>, one reading for the whole request), whether the
  table has a \<open>description\<close> column (\<open>init_db\<close> creates none, and a statement that
  names a missing column raises \<open>OperationalError\<close> when it is prepared), the
  library's check of a bracketed host and its lower-casing of non-ASCII text.
\<close>

record env =
  messages_create :: backend
  json_loads :: loads_fn
  json_dumps :: "json \<Rightarrow> string"
  exn_str :: "exn \<Rightarrow> string"
  clock :: string
  description_column :: bool
  bracketed_host_ok :: "string \<Rightarrow> bool"
  unicode_lower :: "string \<Rightarrow> string"

section \<open>Ingestion: \<open>api_scan\<close> and \<open>api_scan_wwr\<close>\<close>

text \<open>
  \<^verbatim>\<open>
  def api_scan():
      jobs = scan_emails()
      resume_text = load_resumes()
      if not resume_text:
          return jsonify({'error': 'No resumes found. Add .txt/.md files to resumes/ folder'}), 400
      conn = get_db()
      new_count = 0
      filtered_count = 0
      for job in jobs:
          existing = conn.execute("SELECT 1 FROM jobs WHERE job_id = ?", (job['job_id'],)).fetchone()
          if existing:
              continue
          keep, baseline_score, reason = ai_filter_and_score(job, resume_text)
          if keep:
              conn.execute('INSERT INTO jobs (job_id, title, company, location, url, source,
                  raw_text, baseline_score, created_at, updated_at, email_date, is_filtered)
                  VALUES (?, ?, ?, ?, ?, ?, ?, ?, ?, ?, ?, 0)', (...))
              new_count += 1
          else:
              conn.execute('INSERT INTO jobs (..., is_filtered, notes)
                  VALUES (?, ?, ?, ?, ?, ?, ?, ?, ?, ?, ?, 1, ?)', (..., reason))
              filtered_count += 1
      conn.commit()
      conn.close()
      return jsonify({'found': len(jobs), 'new': new_count, 'filtered': filtered_count})
  \<close>
  A request returns its response and the table it leaves. The only \<open>commit\<close> follows the
  loop, so an exception inside the loop leaves the table as it was.
\<close>

datatype response =
    Scanned nat nat nat
  | Analyzed nat
  | Success
  | Cover_letter string
  | Captured string string
  | Bad_request string
  | Server_error exn

definition new_row :: "env \<Rightarrow> job \<Rightarrow> sqlval \<Rightarrow> sqlval \<Rightarrow> int \<Rightarrow> sqlval \<Rightarrow> row" where
  \<comment> \<open>the inserted row; columns the statement leaves out take their defaults\<close>
  "new_row env j desc baseline filtered notes =
     \<lparr>col_job_id = job_id j, col_title = title j, col_company = company j,
      col_location = location j, col_url = url j, col_source = source j,
      col_status = SText ''new'', col_score = SInt 0, col_baseline_score = baseline,
      col_analysis = SNull, col_cover_letter = SNull, col_notes = notes,
      col_raw_text = raw_text j, col_description = desc, col_created_at = created_at j,
      col_updated_at = clock env, col_email_date = SText (email_date j),
      col_is_filtered = filtered\<rparr>"

definition insert_scanned ::
  "env \<Rightarrow> bool \<Rightarrow> job \<Rightarrow> filter_result \<Rightarrow> row list \<Rightarrow> exn + row list" where
  \<comment> \<open>the two \<open>INSERT\<close>s; \<open>wwr\<close> says that the statement names column \<open>description\<close>\<close>
  "insert_scanned env wwr j res rows =
     (case res of (keep, baseline_score, reason) \<Rightarrow>
        if wwr \<and> \<not> description_column env then Inl OperationalError
        else
          (case bind baseline_score of
             Inl e \<Rightarrow> Inl e
           | Inr b \<Rightarrow>
               let desc = (if wwr then (case description j of None \<Rightarrow> SNull
                                        | Some d \<Rightarrow> SText d)
                           else SNull)
               in if truthy keep then insert_row rows (new_row env j desc b 0 SNull)
                  else (case bind reason of
                          Inl e \<Rightarrow> Inl e
                        | Inr n \<Rightarrow> insert_row rows (new_row env j desc b 1 n))))"

fun scan_loop ::
  "env \<Rightarrow> bool \<Rightarrow> string \<Rightarrow> job list \<Rightarrow> row list \<times> nat \<times> nat
     \<Rightarrow> exn + row list \<times> nat \<times> nat" where
  "scan_loop env wwr resume_text [] st = Inr st"
| "scan_loop env wwr resume_text (j # js) (rows, new_count, filtered_count) =
     (if exists_job rows (job_id j)
      then scan_loop env wwr resume_text js (rows, new_count, filtered_count)
      else
        (case ai_filter_and_score (messages_create env) (json_loads env) j resume_text of
           Inl e \<Rightarrow> Inl e
         | Inr res \<Rightarrow>
             (case insert_scanned env wwr j res rows of
                Inl e \<Rightarrow> Inl e
              | Inr rows' \<Rightarrow>
                  if truthy (fst res)
                  then scan_loop env wwr resume_text js (rows', new_count + 1, filtered_count)
                  else scan_loop env wwr resume_text js (rows', new_count, filtered_count + 1))))"

definition ingest ::
  "env \<Rightarrow> bool \<Rightarrow> string \<Rightarrow> string \<Rightarrow> job list \<Rightarrow> row list \<Rightarrow> response \<times> row list" where
  \<comment> \<open>the two routes from \<open>load_resumes()\<close> on; \<open>msg\<close> is the text of their 400 response\<close>
  "ingest env wwr msg resume_text jobs rows =
     (if resume_text = [] then (Bad_request msg, rows)
      else
        (case scan_loop env wwr resume_text jobs (rows, 0, 0) of
           Inl e \<Rightarrow> (Server_error e, rows)
         | Inr (rows', new_count, filtered_count) \<Rightarrow>
             (Scanned (length jobs) new_count filtered_count, rows')))"

definition api_scan ::
  "env \<Rightarrow> exn + job list \<Rightarrow> string \<Rightarrow> row list \<Rightarrow> response \<times> row list" where
  \<comment> \<open>\<open>scan_emails\<close> is the outcome of \<open>scan_emails()\<close>, which raises without Gmail
      credentials; \<open>resume_text\<close> is what \<open>load_resumes()\<close> returns\<close>
  "api_scan env scan_emails resume_text rows =
     (case scan_emails of
        Inl e \<Rightarrow> (Server_error e, rows)
      | Inr jobs \<Rightarrow>
          ingest env False ''No resumes found. Add .txt/.md files to resumes/ folder''
            resume_text jobs rows)"

definition api_scan_wwr ::
  "env \<Rightarrow> job list \<Rightarrow> string \<Rightarrow> row list \<Rightarrow> response \<times> row list" where
  \<comment> \<open>\<open>jobs\<close> is what \<open>fetch_wwr_jobs()\<close> returns\<close>
  "api_scan_wwr env jobs resume_text rows =
     ingest env True ''No resumes found'' resume_text jobs rows"

section \<open>Full analysis: \<open>api_analyze\<close>\<close>

text \<open>
  \<^verbatim>\<open>
  def analyze_job(job, resume_text):
      ...
      try:
          response = client.messages.create(...)
          match = re.search(r'\{[\s\S]*\}', response.content[0].text)
          return json.loads(match.group()) if match else {}
      except Exception as e:
          print(f"Analysis error: {e}")
          return {"qualification_score": 0, "should_apply": False, "recommendation": str(e)}

  def api_analyze():
      resume_text = load_resumes()
      if not resume_text:
          return jsonify({'error': 'No resumes found'}), 400
      conn = get_db()
      jobs = [dict(row) for row in conn.execute(
          "SELECT * FROM jobs WHERE is_filtered = 0 AND (score = 0 OR score IS NULL)"
      ).fetchall()]
      for job in jobs:
          analysis = analyze_job(job, resume_text)
          conn.execute(
              "UPDATE jobs SET score = ?, analysis = ?, status = ?, updated_at = ? WHERE job_id = ?",
              (analysis.get('qualification_score', 0), json.dumps(analysis),
               'interested' if analysis.get('should_apply') else 'new',
               datetime.now().isoformat(), job['job_id']))
          conn.commit()
      conn.close()
      return jsonify({'analyzed': len(jobs)})
  \<close>
  Each update is committed at once: when a later one raises, the earlier ones stay.
\<close>

definition analyze_prompt :: "row \<Rightarrow> string \<Rightarrow> prompt" where
  "analyze_prompt r resume_text =
     \<lparr>p_task = ''analyze'', p_resume = resume_text, p_title = col_title r,
      p_company = col_company r, p_location = col_location r, p_details = col_raw_text r\<rparr>"

definition analysis_error :: "env \<Rightarrow> exn \<Rightarrow> json" where
  "analysis_error env e =
     JObj [(''qualification_score'', JInt 0), (''should_apply'', JBool False),
           (''recommendation'', JStr (exn_str env e))]"

definition analyze_job :: "env \<Rightarrow> row \<Rightarrow> string \<Rightarrow> json" where
  "analyze_job env r resume_text =
     (case messages_create env (analyze_prompt r resume_text) of
        Inl e \<Rightarrow> analysis_error env e
      | Inr text \<Rightarrow>
          (case json_span text of
             None \<Rightarrow> JObj []
           | Some m \<Rightarrow>
               (case json_loads env m of
                  Inl e \<Rightarrow> analysis_error env e
                | Inr v \<Rightarrow> v)))"

definition pending_analysis :: "row \<Rightarrow> bool" where
  \<comment> \<open>\<open>WHERE is_filtered = 0 AND (score = 0 OR score IS NULL)\<close>\<close>
  "pending_analysis r =
     (col_is_filtered r = 0
      \<and> (col_score r = SInt 0 \<or> col_score r = SReal 0 \<or> col_score r = SNull))"

definition update_where :: "string \<Rightarrow> (row \<Rightarrow> row) \<Rightarrow> row list \<Rightarrow> row list" where
  \<comment> \<open>\<open>UPDATE jobs SET ... WHERE job_id = ?\<close>\<close>
  "update_where jid f rows = map (\<lambda>r. if col_job_id r = jid then f r else r) rows"

definition analyze_update :: "env \<Rightarrow> json \<Rightarrow> string \<Rightarrow> row list \<Rightarrow> exn + row list" where
  "analyze_update env analysis jid rows =
     (case dict_get analysis ''qualification_score'' (JInt 0) of
        Inl e \<Rightarrow> Inl e
      | Inr qualification_score \<Rightarrow>
          (case dict_get analysis ''should_apply'' JNull of
             Inl e \<Rightarrow> Inl e
           | Inr should_apply \<Rightarrow>
               (case bind qualification_score of
                  Inl e \<Rightarrow> Inl e
                | Inr sc \<Rightarrow>
                    Inr (update_where jid
                           (\<lambda>r. r\<lparr>col_score := sc,
                                   col_analysis := SText (json_dumps env analysis),
                                   col_status := SText (if truthy should_apply
                                                        then ''interested'' else ''new''),
                                   col_updated_at := clock env\<rparr>)
                           rows))))"

fun analyze_loop :: "env \<Rightarrow> string \<Rightarrow> row list \<Rightarrow> row list \<Rightarrow> exn option \<times> row list" where
  "analyze_loop env resume_text [] rows = (None, rows)"
| "analyze_loop env resume_text (j # js) rows =
     (case analyze_update env (analyze_job env j resume_text) (col_job_id j) rows of
        Inl e \<Rightarrow> (Some e, rows)
      | Inr rows' \<Rightarrow> analyze_loop env resume_text js rows')"

definition api_analyze :: "env \<Rightarrow> string \<Rightarrow> row list \<Rightarrow> response \<times> row list" where
  "api_analyze env resume_text rows =
     (if resume_text = [] then (Bad_request ''No resumes found'', rows)
      else
        (let jobs = filter pending_analysis rows
         in case analyze_loop env resume_text jobs rows of
              (None, rows') \<Rightarrow> (Analyzed (length jobs), rows')
            | (Some e, rows') \<Rightarrow> (Server_error e, rows')))"

section \<open>The other requests that write to the table\<close>

text \<open>
  \<open>update_job\<close> (\<open>PATCH /api/jobs/<job_id>\<close>) sets \<open>status\<close> and \<open>updated_at\<close> of one job;
  \<open>status\<close> is \<open>data.get('status')\<close> of the request body.
\<close>

definition update_job :: "env \<Rightarrow> string \<Rightarrow> json \<Rightarrow> row list \<Rightarrow> response \<times> row list" where
  "update_job env jid status rows =
     (case bind status of
        Inl e \<Rightarrow> (Server_error e, rows)
      | Inr v \<Rightarrow>
          (Success,
           update_where jid (\<lambda>r. r\<lparr>col_status := v, col_updated_at := clock env\<rparr>) rows))"

text \<open>
  \<open>api_cover_letter\<close> reads the row (\<open>dict(None)\<close> raises \<open>TypeError\<close> when there is
  none), calls \<open>generate_cover_letter\<close>, which only reads the row and calls the backend,
  and stores the text; \<open>letter\<close> is the outcome of that call.
\<close>

definition api_cover_letter ::
  "env \<Rightarrow> string \<Rightarrow> exn + string \<Rightarrow> row list \<Rightarrow> response \<times> row list" where
  "api_cover_letter env jid letter rows =
     (if \<not> exists_job rows jid then (Server_error TypeError, rows)
      else
        (case letter of
           Inl e \<Rightarrow> (Server_error e, rows)
         | Inr cover_letter \<Rightarrow>
             (Cover_letter cover_letter,
              update_where jid
                (\<lambda>r. r\<lparr>col_cover_letter := SText cover_letter, col_updated_at := clock env\<rparr>)
                rows)))"

text \<open>
  \<^verbatim>\<open>
  def api_capture():
      data = request.json
      url = clean_job_url(data.get('url', ''))
      title = data.get('title', '')
      company = data.get('company', '')
      location = data.get('location', 'Remote')
      description = data.get('description', '')
      source = data.get('source', 'extension')
      if 'linkedin.com' in url:
          source = 'linkedin'
      elif 'indeed.com' in url:
          source = 'indeed'
      elif 'weworkremotely.com' in url:
          source = 'weworkremotely'
      if not url or not title:
          return jsonify({'error': 'url and title required'}), 400
      job_id = generate_job_id(url, title, company)
      conn = get_db()
      existing = conn.execute("SELECT 1 FROM jobs WHERE job_id = ?", (job_id,)).fetchone()
      if existing:
          conn.execute('UPDATE jobs SET description = ?, raw_text = ?, updated_at = ?
              WHERE job_id = ? AND (description IS NULL OR description = '')',
              (description[:5000], description[:2000], datetime.now().isoformat(), job_id))
          conn.commit()
          conn.close()
          return jsonify({'status': 'updated', 'job_id': job_id})
      resume_text = load_resumes()
      baseline_score = 50
      if resume_text:
          temp_job = {'title': title, 'company': company, 'location': location,
                      'raw_text': description[:500] if description else title}
          keep, baseline_score, reason = ai_filter_and_score(temp_job, resume_text)
      conn.execute('INSERT INTO jobs (job_id, title, company, location, url, source,
          description, raw_text, baseline_score, created_at, updated_at, is_filtered)
          VALUES (?, ?, ?, ?, ?, ?, ?, ?, ?, ?, ?, 0)',
          (job_id, title[:200], company[:100], location[:100], url, source,
           description[:5000], description[:2000], baseline_score,
           datetime.now().isoformat(), datetime.now().isoformat()))
      conn.commit()
      conn.close()
      return jsonify({'status': 'created', 'job_id': job_id, 'baseline_score': baseline_score})
  \<close>
  The fields of the request body are taken as strings, with the defaults of \<open>data.get\<close>
  already applied.
\<close>

record capture =
  cap_url :: string
  cap_title :: string
  cap_company :: string
  cap_location :: string
  cap_description :: string
  cap_source :: string

definition detect_source :: "string \<Rightarrow> string \<Rightarrow> string" where
  "detect_source u src =
     (if str_in ''linkedin.com'' u then ''linkedin''
      else if str_in ''indeed.com'' u then ''indeed''
      else if str_in ''weworkremotely.com'' u then ''weworkremotely''
      else src)"

definition temp_job :: "capture \<Rightarrow> job" where
  "temp_job d =
     \<lparr>job_id = [], title = cap_title d, company = cap_company d, location = cap_location d,
      url = [], source = [],
      raw_text = (if cap_description d \<noteq> [] then take 500 (cap_description d)
                  else cap_title d),
      created_at = [], email_date = [], description = None\<rparr>"

definition captured_row :: "env \<Rightarrow> capture \<Rightarrow> string \<Rightarrow> string \<Rightarrow> sqlval \<Rightarrow> row" where
  "captured_row env d jid u baseline =
     \<lparr>col_job_id = jid, col_title = take 200 (cap_title d),
      col_company = take 100 (cap_company d), col_location = take 100 (cap_location d),
      col_url = u, col_source = detect_source u (cap_source d),
      col_status = SText ''new'', col_score = SInt 0, col_baseline_score = baseline,
      col_analysis = SNull, col_cover_letter = SNull, col_notes = SNull,
      col_raw_text = take 2000 (cap_description d),
      col_description = SText (take 5000 (cap_description d)),
      col_created_at = clock env, col_updated_at = clock env, col_email_date = SNull,
      col_is_filtered = 0\<rparr>"

definition capture_baseline :: "env \<Rightarrow> capture \<Rightarrow> string \<Rightarrow> exn + json" where
  "capture_baseline env d resume_text =
     (if resume_text \<noteq> []
      then (case ai_filter_and_score (messages_create env) (json_loads env) (temp_job d)
                   resume_text of
              Inl e \<Rightarrow> Inl e
            | Inr (keep, baseline_score, reason) \<Rightarrow> Inr baseline_score)
      else Inr (JInt 50))"

definition capture_new ::
  "env \<Rightarrow> capture \<Rightarrow> string \<Rightarrow> string \<Rightarrow> string \<Rightarrow> row list \<Rightarrow> exn + row list" where
  "capture_new env d jid u resume_text rows =
     (case capture_baseline env d resume_text of
        Inl e \<Rightarrow> Inl e
      | Inr baseline_score \<Rightarrow>
          if \<not> description_column env then Inl OperationalError
          else (case bind baseline_score of
                  Inl e \<Rightarrow> Inl e
                | Inr b \<Rightarrow> insert_row rows (captured_row env d jid u b)))"

definition capture_existing :: "env \<Rightarrow> capture \<Rightarrow> string \<Rightarrow> row list \<Rightarrow> exn + row list" where
  "capture_existing env d jid rows =
     (if \<not> description_column env then Inl OperationalError
      else Inr (update_where jid
                  (\<lambda>r. if col_description r = SNull \<or> col_description r = SText []
                        then r\<lparr>col_description := SText (take 5000 (cap_description d)),
                                col_raw_text := take 2000 (cap_description d),
                                col_updated_at := clock env\<rparr>
                        else r)
                  rows))"

definition api_capture :: "env \<Rightarrow> capture \<Rightarrow> string \<Rightarrow> row list \<Rightarrow> response \<times> row list" where
  "api_capture env d resume_text rows =
     (case clean_job_url (bracketed_host_ok env) (cap_url d) of
        Inl e \<Rightarrow> (Server_error e, rows)
      | Inr u \<Rightarrow>
          if u = [] \<or> cap_title d = [] then (Bad_request ''url and title required'', rows)
          else
            (case generate_job_id (unicode_lower env) (bracketed_host_ok env) u
                    (cap_title d) (cap_company d) of
               Inl e \<Rightarrow> (Server_error e, rows)
             | Inr jid \<Rightarrow>
                 if exists_job rows jid
                 then (case capture_existing env d jid rows of
                         Inl e \<Rightarrow> (Server_error e, rows)
                       | Inr rows' \<Rightarrow> (Captured ''updated'' jid, rows'))
                 else (case capture_new env d jid u resume_text rows of
                         Inl e \<Rightarrow> (Server_error e, rows)
                       | Inr rows' \<Rightarrow> (Captured ''created'' jid, rows'))))"

section \<open>The tables the requests can produce\<close>

text \<open>
  A table is reachable when it is the empty table of \<open>init_db\<close> or what one of the
  requests leaves of a reachable table, whatever the request carries and whatever the
  backend, the mail service and the feeds answer.
\<close>

inductive reachable :: "row list \<Rightarrow> bool" where
  init_db: "reachable []"
| scan: "reachable rows \<Longrightarrow> api_scan env scan_emails resume_text rows = (resp, rows')
           \<Longrightarrow> reachable rows'"
| scan_wwr: "reachable rows \<Longrightarrow> api_scan_wwr env jobs resume_text rows = (resp, rows')
           \<Longrightarrow> reachable rows'"
| analyze: "reachable rows \<Longrightarrow> api_analyze env resume_text rows = (resp, rows')
           \<Longrightarrow> reachable rows'"
| patch: "reachable rows \<Longrightarrow> update_job env jid status rows = (resp, rows')
           \<Longrightarrow> reachable rows'"
| cover_letter: "reachable rows \<Longrightarrow> api_cover_letter env jid letter rows = (resp, rows')
           \<Longrightarrow> reachable rows'"
| capture: "reachable rows \<Longrightarrow> api_capture env d resume_text rows = (resp, rows')
           \<Longrightarrow> reachable rows'"

text \<open>
  What the invariant says of a table: the primary key holds, and a row marked as filtered
  has the score the table gives by default, that is, none was ever written.
\<close>

definition filtered_unscored :: "row \<Rightarrow> bool" where
  "filtered_unscored r = (col_is_filtered r = 0 \<or> col_score r = SInt 0)"

definition table_ok :: "row list \<Rightarrow> bool" where
  "table_ok rows = (distinct (job_ids rows) \<and> list_all filtered_unscored rows)"

definition unfiltered_ids :: "row list \<Rightarrow> row list \<Rightarrow> bool" where
  \<comment> \<open>no row of \<open>rows\<close> with the \<open>job_id\<close> of a row of \<open>js\<close> is marked as filtered\<close>
  "unfiltered_ids js rows =
     list_all (\<lambda>j. list_all (\<lambda>r. col_job_id r \<noteq> col_job_id j \<or> col_is_filtered r = 0) rows)
       js"

text \<open>Inputs and helpers used to exercise the theorems at concrete values.\<close>

definition any_ip_literal :: "string \<Rightarrow> bool" where
  \<comment> \<open>a bracketed-host check that accepts every host\<close>
  "any_ip_literal s = True"


text \<open>A candidate used to exercise the theorems below at a concrete input.\<close>

definition sample_job :: job where
  "sample_job =
     \<lparr>job_id = ''0123456789abcdef'', title = ''Backend Engineer'', company = ''Acme'',
      location = ''Remote'', url = ''https://example.com/jobs/1'', source = ''linkedin'',
      raw_text = ''Backend Engineer Acme Remote'', created_at = ''2025-01-01T00:00:00'',
      email_date = ''2025-01-01T00:00:00'', description = None\<rparr>"

definition sample_env :: env where
  "sample_env =
     \<lparr>messages_create = (\<lambda>p. Inl APIError), json_loads = (\<lambda>s. Inl JSONDecodeError),
      json_dumps = (\<lambda>v. ''{}''), exn_str = (\<lambda>e. ''error''),
      clock = ''2025-01-02T00:00:00'', description_column = False,
      bracketed_host_ok = any_ip_literal, unicode_lower = dotless_lower\<rparr>"

definition sample_row :: row where
  "sample_row = new_row sample_env sample_job SNull (SInt 30) 0 SNull"

definition rejecting_env :: env where
  \<comment> \<open>a backend whose answer decodes to a rejection\<close>
  "rejecting_env =
     \<lparr>messages_create = (\<lambda>p. Inr ''{}''),
      json_loads = (\<lambda>s. Inr (JObj [(''keep'', JBool False), (''baseline_score'', JInt 10),
                                     (''filter_reason'', JStr ''filtered: too senior'')])),
      json_dumps = (\<lambda>v. ''{}''), exn_str = (\<lambda>e. ''error''),
      clock = ''2025-01-02T00:00:00'', description_column = False,
      bracketed_host_ok = any_ip_literal, unicode_lower = dotless_lower\<rparr>"

definition rejected_row :: row where
  "rejected_row =
     new_row rejecting_env sample_job SNull (SInt 10) 1 (SText ''filtered: too senior'')"

section \<open>Theorems\<close>

subsection \<open>Ranking\<close>

text \<open>
  C2. The specification's ranking formula decays by \<open>100/30\<close> a day, so that a posting
  of 30 days or more has recency exactly 0 and a baseline score of 100 ranks at 70.0 from
  day 30 on. The code decays by \<open>3.33\<close> a day: at 30 days the recency component is
  still \<open>0.1\<close>, and \<open>calculate_weighted_score(100, 30 days ago)\<close> is 70.03 where the
  formula gives 70.0. (At age 0 and at 31 days the two agree: 100.0 and 70.0.)
\<close>

theorem calculate_weighted_score_day_30:
  "calculate_weighted_score 100 (Some 30) = 7003 / 100
   \<and> spec_weighted_score 100 30 = 70
   \<and> recency_score (Some 30) = 1 / 10
   \<and> calculate_weighted_score 100 (Some 0) = 100
   \<and> calculate_weighted_score 100 (Some 31) = 70"
  by (simp add: calculate_weighted_score_def spec_weighted_score_def recency_score_def
      round2_def Let_def)

subsection \<open>URL cleaning\<close>


















text \<open>
  C1. Cleaning is not idempotent. The LinkedIn branch for \<open>currentJobId\<close> puts the decoded
  value of the parameter into a path as it is; with the value \<open>12/34\<close> the result is
  \<open>https://www.linkedin.com/jobs/view/12/34\<close>, which the branch for \<open>/jobs/view/\<close> (it
  cuts the id at the first \<open>/\<close>) then cleans to \<open>https://www.linkedin.com/jobs/view/12\<close>.
  The Indeed branch does the same with a value that holds \<open>&\<close>.
\<close>

theorem clean_job_url_twice_differs:
  "clean_job_url ip_ok ''https://www.linkedin.com/jobs/search/?currentJobId=12/34''
     = Inr ''https://www.linkedin.com/jobs/view/12/34''
   \<and> clean_job_url ip_ok ''https://www.linkedin.com/jobs/view/12/34''
       = Inr ''https://www.linkedin.com/jobs/view/12''
   \<and> clean_job_url ip_ok ''https://www.indeed.com/rc/clk?jk=a%26b''
       = Inr ''https://www.indeed.com/viewjob?jk=a&b''
   \<and> clean_job_url ip_ok ''https://www.indeed.com/viewjob?jk=a&b''
       = Inr ''https://www.indeed.com/viewjob?jk=a''"
  by code_simp

subsection \<open>Identity\<close>
















text \<open>Digests, computed by rewriting with the definitions.\<close>

lemma replicate_numeral: "replicate (numeral k) x = x # replicate (pred_numeral k) x"
  by (simp add: numeral_eq_Suc)

lemmas sha_defs = add32_def rotr_def shr_def not32_def Ch_def Maj_def Sigma0_def Sigma1_def
  sigma0_def sigma1_def H256_def K256_def sha_round_def next_window_def compress_def
  sha256_def pad_def hex_word_def sha256_hexdigest_def replicate_numeral Let_def

lemma digest_view_12_34:
  "sha256_hexdigest ''https://www.linkedin.com/jobs/view/12/34:dev:acme''
     = ''6e5a182fffcc92520d72c7f1669240d132fadab43229d1f1dac8915672059369''"
  by (simp add: sha_defs)

lemma digest_view_12:
  "sha256_hexdigest ''https://www.linkedin.com/jobs/view/12:dev:acme''
     = ''55d2b9a2de48ade9fa6b2cb2ed6a111a410f21edc68906130acc33292f98c323''"
  by (simp add: sha_defs)


lemma clean_view_12_34:
  "clean_job_url ip_ok ''https://www.linkedin.com/jobs/view/12/34''
     = Inr ''https://www.linkedin.com/jobs/view/12''"
  by code_simp

lemma clean_current_12_34:
  "clean_job_url ip_ok ''https://www.linkedin.com/jobs/search/?currentJobId=12/34''
     = Inr ''https://www.linkedin.com/jobs/view/12/34''"
  by code_simp








text \<open>
  C10. The identifier of a raw URL and the identifier of the same URL cleaned beforehand
  differ where cleaning twice differs from cleaning once: \<open>generate_job_id\<close> cleans its
  argument again. For the URL with \<open>currentJobId=12/34\<close> the first identifier is the
  digest of \<open>https://www.linkedin.com/jobs/view/12/34:dev:acme\<close>, the second that of
  \<open>https://www.linkedin.com/jobs/view/12:dev:acme\<close>.
\<close>

theorem generate_job_id_differs_after_cleaning:
  "generate_job_id ulower ip_ok ''https://www.linkedin.com/jobs/search/?currentJobId=12/34''
       ''Dev'' ''Acme''
     = Inr ''6e5a182fffcc9252''
   \<and> clean_job_url ip_ok ''https://www.linkedin.com/jobs/search/?currentJobId=12/34''
       = Inr ''https://www.linkedin.com/jobs/view/12/34''
   \<and> generate_job_id ulower ip_ok ''https://www.linkedin.com/jobs/view/12/34''
         ''Dev'' ''Acme''
       = Inr ''55d2b9a2de48ade9''"
proof -
  have l1: "job_id_content ulower ''https://www.linkedin.com/jobs/view/12/34''
                ''Dev'' ''Acme''
              = ''https://www.linkedin.com/jobs/view/12/34:dev:acme''"
    by (simp add: job_id_content_def str_lower_def is_ascii_def ascii_lower_def
        lower_char_def)
  have l2: "job_id_content ulower ''https://www.linkedin.com/jobs/view/12'' ''Dev'' ''Acme''
              = ''https://www.linkedin.com/jobs/view/12:dev:acme''"
    by (simp add: job_id_content_def str_lower_def is_ascii_def ascii_lower_def
        lower_char_def)
  show ?thesis
    by (simp add: generate_job_id_def clean_current_12_34 clean_view_12_34 l1 l2
        digest_view_12_34 digest_view_12)
qed

subsection \<open>Baseline filter\<close>

text \<open>
  C3. Whatever the job and the resume corpus: when the generative-text call raises, when
  its response holds no \<open>{...}\<close> span, or when \<open>json.loads\<close> rejects that span,
  \<open>ai_filter_and_score\<close> returns exactly
  \<open>(True, 30, "filter error - kept by default")\<close>; and on every input it returns a
  triple, no exception reaches the caller.
\<close>

theorem ai_filter_and_score_fallback:
  assumes "create (filter_prompt j resume_text) = Inl e
           \<or> (\<exists>text. create (filter_prompt j resume_text) = Inr text
                \<and> (json_span text = None
                     \<or> (\<exists>m e'. json_span text = Some m \<and> loads m = Inl e')))"
  shows "ai_filter_and_score create loads j resume_text
           = Inr (JBool True, JInt 30, JStr ''filter error - kept by default'')
         \<and> (\<exists>r. ai_filter_and_score create' loads' j' resume_text' = Inr r)"
proof
  from assms
  have "filter_try create loads (filter_prompt j resume_text) = Inr None
        \<or> (\<exists>x. filter_try create loads (filter_prompt j resume_text) = Inl x)"
    by (auto simp: filter_try_def)
  then show "ai_filter_and_score create loads j resume_text
           = Inr (JBool True, JInt 30, JStr ''filter error - kept by default'')"
    by (auto simp: ai_filter_and_score_def filter_fallback_def)
  show "\<exists>r. ai_filter_and_score create' loads' j' resume_text' = Inr r"
    by (simp add: ai_filter_and_score_def filter_fallback_def split: sum.split option.split)
qed

theorem ai_filter_and_score_fallback_witness:
  "ai_filter_and_score (\<lambda>p. Inl APIError) (\<lambda>s. Inl JSONDecodeError) sample_job ''resume''
     = Inr (JBool True, JInt 30, JStr ''filter error - kept by default'')
   \<and> ai_filter_and_score (\<lambda>p. Inr ''no payload here'') (\<lambda>s. Inl JSONDecodeError)
         sample_job ''resume''
       = Inr (JBool True, JInt 30, JStr ''filter error - kept by default'')
   \<and> ai_filter_and_score (\<lambda>p. Inr ''{keep: tru}'') (\<lambda>s. Inl JSONDecodeError)
         sample_job ''resume''
       = Inr (JBool True, JInt 30, JStr ''filter error - kept by default'')"
proof -
  have a: "ai_filter_and_score (\<lambda>p. Inl APIError) (\<lambda>s. Inl JSONDecodeError) sample_job ''resume''
     = Inr (JBool True, JInt 30, JStr ''filter error - kept by default'')"
    using ai_filter_and_score_fallback
      [of "\<lambda>p. Inl APIError" sample_job "''resume''" APIError "\<lambda>s. Inl JSONDecodeError"]
    by simp
  have b: "ai_filter_and_score (\<lambda>p. Inr ''no payload here'') (\<lambda>s. Inl JSONDecodeError)
         sample_job ''resume''
       = Inr (JBool True, JInt 30, JStr ''filter error - kept by default'')"
    using ai_filter_and_score_fallback
      [of "\<lambda>p. Inr ''no payload here''" sample_job "''resume''" APIError
          "\<lambda>s. Inl JSONDecodeError"]
    by (simp add: json_span_def)
  have c: "ai_filter_and_score (\<lambda>p. Inr ''{keep: tru}'') (\<lambda>s. Inl JSONDecodeError)
         sample_job ''resume''
       = Inr (JBool True, JInt 30, JStr ''filter error - kept by default'')"
    using ai_filter_and_score_fallback
      [of "\<lambda>p. Inr ''{keep: tru}''" sample_job "''resume''" APIError
          "\<lambda>s. Inl JSONDecodeError"]
    by (simp add: json_span_def)
  from a b c show ?thesis by simp
qed

subsection \<open>Ingestion\<close>

text \<open>What a completed run of the loop leaves in the table, by induction on the candidates.\<close>

lemma insert_row_ids:
  "insert_row rows r = Inr rows' \<Longrightarrow> rows' = rows @ [r] \<and> col_job_id r \<notin> set (job_ids rows)"
  by (auto simp: insert_row_def exists_job_def split: if_splits)

lemma insert_scanned_ids:
  assumes "insert_scanned env wwr j res rows = Inr rows'"
  shows "\<exists>r. rows' = rows @ [r] \<and> col_job_id r = job_id j \<and> job_id j \<notin> set (job_ids rows)"
  using assms
  by (auto simp: insert_scanned_def new_row_def Let_def
      split: prod.splits if_splits sum.splits dest!: insert_row_ids)

lemma scan_loop_ids:
  "scan_loop env wwr resume_text jobs (rows, n, f) = Inr (rows', n', f') \<Longrightarrow>
   set (job_ids rows') = set (job_ids rows) \<union> set (map job_id jobs)
   \<and> (distinct (job_ids rows) \<longrightarrow> distinct (job_ids rows'))"
proof (induction jobs arbitrary: rows n f)
  case Nil
  then show ?case by simp
next
  case (Cons j js)
  show ?case
  proof (cases "exists_job rows (job_id j)")
    case True
    with Cons.prems have "scan_loop env wwr resume_text js (rows, n, f) = Inr (rows', n', f')"
      by simp
    from Cons.IH [OF this] True show ?thesis
      by (auto simp: exists_job_def)
  next
    case False
    with Cons.prems obtain res rows2 n2 f2 where
      ins: "insert_scanned env wwr j res rows = Inr rows2"
      and rest: "scan_loop env wwr resume_text js (rows2, n2, f2) = Inr (rows', n', f')"
      by (auto split: sum.splits if_splits)
    from insert_scanned_ids [OF ins] obtain r where
      r: "rows2 = rows @ [r]" "col_job_id r = job_id j" "job_id j \<notin> set (job_ids rows)"
      by blast
    from Cons.IH [OF rest] r show ?thesis
      by (auto simp: job_ids_def)
  qed
qed

lemma scan_loop_all_known:
  "set (map job_id jobs) \<subseteq> set (job_ids rows) \<Longrightarrow>
   scan_loop env wwr resume_text jobs (rows, n, f) = Inr (rows, n, f)"
  by (induction jobs) (auto simp: exists_job_def)

lemma distinct_filter_one:
  "distinct (map g xs) \<Longrightarrow> k \<in> set (map g xs) \<Longrightarrow> length (filter (\<lambda>x. g x = k) xs) = 1"
proof (induction xs)
  case Nil
  then show ?case by simp
next
  case (Cons x xs)
  show ?case
  proof (cases "g x = k")
    case True
    with Cons.prems have "k \<notin> g ` set xs" by simp
    then have "\<forall>y \<in> set xs. g y \<noteq> k" by blast
    then have "filter (\<lambda>y. g y = k) xs = []"
      by (simp add: filter_empty_conv)
    with True show ?thesis by simp
  next
    case False
    with Cons show ?thesis by auto
  qed
qed

text \<open>
  C4. Take any candidates and any table whose primary key holds. If a scan over them
  completes, then a second scan over the same candidates, whatever the backend answers
  and whatever the clock shows, reports \<open>new = 0\<close> and \<open>filtered = 0\<close> and leaves the table
  as it is; the table holds exactly one row for the \<open>job_id\<close> of every candidate (also
  when the candidates repeat an id within one scan), its ids are those it had plus those
  of the candidates; and a candidate whose \<open>job_id\<close> is in the table is skipped: no row is
  inserted or updated.
\<close>

theorem api_scan_dedup:
  assumes run: "api_scan env (Inr jobs) resume_text rows
                  = (Scanned found new_count filtered_count, rows1)"
    and pk: "distinct (job_ids rows)"
    and resume': "resume_text' \<noteq> []"
  shows "api_scan env' (Inr jobs) resume_text' rows1 = (Scanned (length jobs) 0 0, rows1)
         \<and> distinct (job_ids rows1)
         \<and> set (job_ids rows1) = set (job_ids rows) \<union> set (map job_id jobs)
         \<and> (\<forall>j \<in> set jobs. length (filter (\<lambda>r. col_job_id r = job_id j) rows1) = 1)
         \<and> (\<forall>j. exists_job rows (job_id j) \<longrightarrow>
                api_scan env' (Inr [j]) resume_text' rows = (Scanned 1 0 0, rows))"
proof -
  from run have loop: "scan_loop env False resume_text jobs (rows, 0, 0)
                         = Inr (rows1, new_count, filtered_count)"
    by (auto simp: api_scan_def ingest_def split: if_splits sum.splits)
  from scan_loop_ids [OF loop] pk
  have ids: "set (job_ids rows1) = set (job_ids rows) \<union> set (map job_id jobs)"
    and d: "distinct (job_ids rows1)"
    by simp_all
  from ids have "set (map job_id jobs) \<subseteq> set (job_ids rows1)" by blast
  then have again: "scan_loop env' False resume_text' jobs (rows1, 0, 0) = Inr (rows1, 0, 0)"
    by (rule scan_loop_all_known)
  have one: "\<forall>j \<in> set jobs. length (filter (\<lambda>r. col_job_id r = job_id j) rows1) = 1"
  proof
    fix j assume "j \<in> set jobs"
    with ids have "job_id j \<in> set (map col_job_id rows1)" by (auto simp: job_ids_def)
    with d show "length (filter (\<lambda>r. col_job_id r = job_id j) rows1) = 1"
      by (simp add: distinct_filter_one job_ids_def)
  qed
  have skip: "\<forall>j. exists_job rows (job_id j) \<longrightarrow>
                api_scan env' (Inr [j]) resume_text' rows = (Scanned 1 0 0, rows)"
    using resume' by (simp add: api_scan_def ingest_def)
  from again resume' d ids one skip show ?thesis
    by (simp add: api_scan_def ingest_def)
qed


lemma api_scan_sample:
  "api_scan sample_env (Inr [sample_job, sample_job]) ''resume'' [] = (Scanned 2 1 0, [sample_row])"
  by (simp add: api_scan_def ingest_def sample_env_def exists_job_def job_ids_def
      ai_filter_and_score_def filter_try_def filter_fallback_def insert_scanned_def
      insert_row_def new_row_def sample_row_def)

theorem api_scan_dedup_witness:
  "api_scan sample_env (Inr [sample_job, sample_job]) ''resume'' [] = (Scanned 2 1 0, [sample_row])
   \<and> api_scan sample_env (Inr [sample_job, sample_job]) ''resume'' [sample_row]
       = (Scanned 2 0 0, [sample_row])
   \<and> length (filter (\<lambda>r. col_job_id r = job_id sample_job) [sample_row]) = 1"
proof -
  note run = api_scan_sample
  have pk: "distinct (job_ids [])" by (simp add: job_ids_def)
  have r: "''resume'' \<noteq> []" by simp
  from api_scan_dedup [OF run pk r, of sample_env] run show ?thesis
    by simp
qed


text \<open>
  C8. With no resume corpus (\<open>load_resumes()\<close> returns the empty string) the email scan
  and the feed scan answer with their 400 error and the table is what it was; the table
  is also unchanged when \<open>scan_emails()\<close> itself has raised.
\<close>

theorem scan_without_resumes:
  "api_scan env (Inr jobs) [] rows
     = (Bad_request ''No resumes found. Add .txt/.md files to resumes/ folder'', rows)
   \<and> api_scan_wwr env jobs [] rows = (Bad_request ''No resumes found'', rows)
   \<and> snd (api_scan env scan_emails [] rows) = rows"
  by (simp add: api_scan_def api_scan_wwr_def ingest_def split: sum.split)

subsection \<open>Filtered rows and the qualification score\<close>

text \<open>Every request keeps the primary key and leaves the score of a filtered row alone.\<close>

lemma table_ok_Nil: "table_ok []"
  by (simp add: table_ok_def job_ids_def)

lemma table_ok_append:
  assumes "table_ok rows" and "col_job_id r \<notin> set (job_ids rows)" and "filtered_unscored r"
  shows "table_ok (rows @ [r])"
  using assms by (simp add: table_ok_def job_ids_def)

lemma insert_row_ok:
  assumes "insert_row rows r = Inr rows'" and "table_ok rows" and "filtered_unscored r"
  shows "table_ok rows'"
proof -
  from assms(1) have "rows' = rows @ [r]" "col_job_id r \<notin> set (job_ids rows)"
    by (auto simp: insert_row_def exists_job_def split: if_splits)
  with assms(2,3) show ?thesis by (simp add: table_ok_append)
qed

lemma new_row_unscored: "filtered_unscored (new_row env j desc b filtered notes)"
  by (simp add: filtered_unscored_def new_row_def)

lemma insert_scanned_ok:
  assumes "insert_scanned env wwr j res rows = Inr rows'" and "table_ok rows"
  shows "table_ok rows'"
  using assms
  by (auto simp: insert_scanned_def Let_def new_row_unscored
      split: prod.splits if_splits sum.splits elim: insert_row_ok)

lemma scan_loop_ok:
  "scan_loop env wwr resume_text jobs (rows, n, f) = Inr (rows', n', f') \<Longrightarrow> table_ok rows
   \<Longrightarrow> table_ok rows'"
proof (induction jobs arbitrary: rows n f)
  case Nil
  then show ?case by simp
next
  case (Cons j js)
  show ?case
  proof (cases "exists_job rows (job_id j)")
    case True
    with Cons.prems(1) have "scan_loop env wwr resume_text js (rows, n, f) = Inr (rows', n', f')"
      by simp
    from Cons.IH [OF this Cons.prems(2)] show ?thesis .
  next
    case False
    with Cons.prems(1) obtain res rows2 n2 f2 where
      ins: "insert_scanned env wwr j res rows = Inr rows2"
      and rest: "scan_loop env wwr resume_text js (rows2, n2, f2) = Inr (rows', n', f')"
      by (auto split: sum.splits if_splits)
    from insert_scanned_ok [OF ins Cons.prems(2)] have "table_ok rows2" .
    from Cons.IH [OF rest this] show ?thesis .
  qed
qed

lemma ingest_ok:
  assumes "ingest env wwr msg resume_text jobs rows = (resp, rows')" and "table_ok rows"
  shows "table_ok rows'"
  using assms
  by (auto simp: ingest_def split: if_splits sum.splits prod.splits dest: scan_loop_ok)

text \<open>An update by \<open>job_id\<close> that keeps the key and the filter mark.\<close>

lemma job_ids_update_where:
  "(\<And>r. col_job_id (f r) = col_job_id r) \<Longrightarrow> job_ids (update_where jid f rows) = job_ids rows"
  by (induction rows) (auto simp: job_ids_def update_where_def)

lemma update_where_ok:
  assumes "table_ok rows"
    and "\<And>r. col_job_id (f r) = col_job_id r"
    and "\<And>r. r \<in> set rows \<Longrightarrow> col_job_id r = jid \<Longrightarrow> filtered_unscored (f r)"
  shows "table_ok (update_where jid f rows)"
proof -
  have "distinct (job_ids (update_where jid f rows))"
    using assms(1,2) by (simp add: job_ids_update_where table_ok_def)
  moreover have "list_all filtered_unscored (update_where jid f rows)"
    using assms(1,3) by (auto simp: table_ok_def update_where_def list_all_iff)
  ultimately show ?thesis by (simp add: table_ok_def)
qed

lemma filtered_update_where:
  assumes "\<And>r. r \<in> set rows \<Longrightarrow> col_job_id r = jid \<Longrightarrow> col_is_filtered r = 0"
    and "\<And>r. col_is_filtered (f r) = col_is_filtered r"
  shows "filter (\<lambda>r. col_is_filtered r \<noteq> 0) (update_where jid f rows)
           = filter (\<lambda>r. col_is_filtered r \<noteq> 0) rows"
  using assms(1) by (induction rows) (auto simp: update_where_def assms(2))

text \<open>The rows selected for analysis are unfiltered, and stay so during the loop.\<close>

lemma unfiltered_idsD:
  "unfiltered_ids js rows \<Longrightarrow> j \<in> set js \<Longrightarrow> r \<in> set rows \<Longrightarrow> col_job_id r = col_job_id j
   \<Longrightarrow> col_is_filtered r = 0"
  by (auto simp: unfiltered_ids_def list_all_iff)

lemma unfiltered_ids_update_where:
  assumes "unfiltered_ids js rows"
    and "\<And>r. col_job_id (f r) = col_job_id r"
    and "\<And>r. col_is_filtered (f r) = col_is_filtered r"
  shows "unfiltered_ids js (update_where jid f rows)"
  using assms(1) by (auto simp: unfiltered_ids_def list_all_iff update_where_def assms(2,3))

lemma analyze_update_shape:
  assumes "analyze_update env analysis jid rows = Inr rows'"
  shows "\<exists>f. rows' = update_where jid f rows
             \<and> (\<forall>r. col_job_id (f r) = col_job_id r)
             \<and> (\<forall>r. col_is_filtered (f r) = col_is_filtered r)"
  using assms
  by (auto simp: analyze_update_def split: sum.splits intro!: exI)

lemma analyze_loop_ok:
  "analyze_loop env resume_text js rows = (e, rows') \<Longrightarrow> table_ok rows
   \<Longrightarrow> unfiltered_ids js rows
   \<Longrightarrow> table_ok rows'
       \<and> filter (\<lambda>r. col_is_filtered r \<noteq> 0) rows' = filter (\<lambda>r. col_is_filtered r \<noteq> 0) rows"
proof (induction js arbitrary: rows)
  case Nil
  then show ?case by simp
next
  case (Cons j js)
  show ?case
  proof (cases "analyze_update env (analyze_job env j resume_text) (col_job_id j) rows")
    case (Inl x)
    with Cons.prems show ?thesis by simp
  next
    case (Inr rows1)
    from analyze_update_shape [OF Inr] obtain f where
      f: "rows1 = update_where (col_job_id j) f rows"
         "\<And>r. col_job_id (f r) = col_job_id r"
         "\<And>r. col_is_filtered (f r) = col_is_filtered r"
      by blast
    have unf: "\<And>r. r \<in> set rows \<Longrightarrow> col_job_id r = col_job_id j \<Longrightarrow> col_is_filtered r = 0"
      using Cons.prems(3) by (auto dest: unfiltered_idsD)
    have ok1: "table_ok rows1"
      unfolding f(1)
      by (rule update_where_ok [OF Cons.prems(2) f(2)])
         (simp add: filtered_unscored_def f(3) unf)
    have same: "filter (\<lambda>r. col_is_filtered r \<noteq> 0) rows1
                  = filter (\<lambda>r. col_is_filtered r \<noteq> 0) rows"
      unfolding f(1) by (rule filtered_update_where [OF unf f(3)])
    have "unfiltered_ids js rows"
      using Cons.prems(3) by (simp add: unfiltered_ids_def)
    then have unf1: "unfiltered_ids js rows1"
      unfolding f(1) by (rule unfiltered_ids_update_where [OF _ f(2) f(3)])
    from Cons.prems(1) Inr have "analyze_loop env resume_text js rows1 = (e, rows')"
      by simp
    from Cons.IH [OF this ok1 unf1] same show ?thesis by simp
  qed
qed

lemma distinct_same_key:
  assumes "distinct (map g xs)" and "x \<in> set xs" and "y \<in> set xs" and "g x = g y"
  shows "x = y"
proof -
  from assms(1) have "inj_on g (set xs)" by (simp add: distinct_map)
  with assms(2-4) show ?thesis by (auto dest: inj_onD)
qed

lemma pending_unfiltered:
  assumes "table_ok rows"
  shows "unfiltered_ids (filter pending_analysis rows) rows"
proof -
  have "col_is_filtered r = 0"
    if "j \<in> set rows" "pending_analysis j" "r \<in> set rows" "col_job_id r = col_job_id j" for j r
  proof -
    from assms have "distinct (map col_job_id rows)" by (simp add: table_ok_def job_ids_def)
    from distinct_same_key [OF this that(3) that(1) that(4)] have "r = j" .
    with that(2) show ?thesis by (simp add: pending_analysis_def)
  qed
  then show ?thesis
    by (auto simp: unfiltered_ids_def list_all_iff)
qed

lemma api_analyze_ok:
  assumes "api_analyze env resume_text rows = (resp, rows')" and "table_ok rows"
  shows "table_ok rows'
         \<and> filter (\<lambda>r. col_is_filtered r \<noteq> 0) rows' = filter (\<lambda>r. col_is_filtered r \<noteq> 0) rows"
proof (cases "resume_text = []")
  case True
  with assms show ?thesis by (simp add: api_analyze_def)
next
  case False
  obtain e rows1 where
    loop: "analyze_loop env resume_text (filter pending_analysis rows) rows = (e, rows1)"
    by (cases "analyze_loop env resume_text (filter pending_analysis rows) rows")
  with assms(1) False have "rows' = rows1"
    by (auto simp: api_analyze_def Let_def split: option.splits)
  with analyze_loop_ok [OF loop assms(2) pending_unfiltered [OF assms(2)]]
  show ?thesis by simp
qed

lemma update_job_ok:
  assumes "update_job env jid status rows = (resp, rows')" and "table_ok rows"
  shows "table_ok rows'"
proof (cases "bind status")
  case (Inl e)
  with assms show ?thesis by (simp add: update_job_def)
next
  case (Inr v)
  with assms(1) have "rows' = update_where jid
      (\<lambda>r. r\<lparr>col_status := v, col_updated_at := clock env\<rparr>) rows"
    by (simp add: update_job_def)
  moreover have "table_ok (update_where jid
      (\<lambda>r. r\<lparr>col_status := v, col_updated_at := clock env\<rparr>) rows)"
    using assms(2)
    by (intro update_where_ok) (auto simp: table_ok_def list_all_iff filtered_unscored_def)
  ultimately show ?thesis by simp
qed

lemma api_cover_letter_ok:
  assumes "api_cover_letter env jid letter rows = (resp, rows')" and "table_ok rows"
  shows "table_ok rows'"
proof (cases "exists_job rows jid \<and> (\<exists>t. letter = Inr t)")
  case False
  with assms show ?thesis
    by (cases letter) (auto simp: api_cover_letter_def split: if_splits)
next
  case True
  then obtain t where "letter = Inr t" by blast
  with True assms(1) have "rows' = update_where jid
      (\<lambda>r. r\<lparr>col_cover_letter := SText t, col_updated_at := clock env\<rparr>) rows"
    by (simp add: api_cover_letter_def)
  moreover have "table_ok (update_where jid
      (\<lambda>r. r\<lparr>col_cover_letter := SText t, col_updated_at := clock env\<rparr>) rows)"
    using assms(2)
    by (intro update_where_ok) (auto simp: table_ok_def list_all_iff filtered_unscored_def)
  ultimately show ?thesis by simp
qed

lemma capture_existing_ok:
  assumes "capture_existing env d jid rows = Inr rows'" and "table_ok rows"
  shows "table_ok rows'"
proof -
  define f :: "row \<Rightarrow> row" where "f = (\<lambda>r. if col_description r = SNull \<or> col_description r = SText []
                        then r\<lparr>col_description := SText (take 5000 (cap_description d)),
                                col_raw_text := take 2000 (cap_description d),
                                col_updated_at := clock env\<rparr>
                        else r)"
  from assms(1) have "rows' = update_where jid f rows"
    by (auto simp: capture_existing_def f_def split: if_splits)
  moreover have "table_ok (update_where jid f rows)"
    using assms(2)
    by (intro update_where_ok) (auto simp: table_ok_def list_all_iff filtered_unscored_def f_def)
  ultimately show ?thesis by simp
qed

lemma capture_new_ok:
  assumes "capture_new env d jid u resume_text rows = Inr rows'" and "table_ok rows"
  shows "table_ok rows'"
  using assms
  by (auto simp: capture_new_def captured_row_def filtered_unscored_def
      split: sum.splits if_splits elim!: insert_row_ok)

lemma api_capture_ok:
  assumes "api_capture env d resume_text rows = (resp, rows')" and "table_ok rows"
  shows "table_ok rows'"
  using assms
  by (auto simp: api_capture_def split: sum.splits if_splits
      dest: capture_existing_ok capture_new_ok)

lemma reachable_ok: "reachable rows \<Longrightarrow> table_ok rows"
proof (induction rule: reachable.induct)
  case init_db
  show ?case by (rule table_ok_Nil)
next
  case (scan rows env scan_emails resume_text resp rows')
  then show ?case
    by (auto simp: api_scan_def split: sum.splits dest: ingest_ok)
next
  case (scan_wwr rows env jobs resume_text resp rows')
  then show ?case
    by (auto simp: api_scan_wwr_def dest: ingest_ok)
next
  case (analyze rows env resume_text resp rows')
  then show ?case by (auto dest: api_analyze_ok)
next
  case (patch rows env jid status resp rows')
  then show ?case by (auto dest: update_job_ok)
next
  case (cover_letter rows env jid letter resp rows')
  then show ?case by (auto dest: api_cover_letter_ok)
next
  case (capture rows env d resume_text resp rows')
  then show ?case by (auto dest: api_capture_ok)
qed

text \<open>
  C9. In every table the requests can produce, a row marked as filtered has score 0, the
  default of the column: no qualification score was ever written to it. The full
  analysis selects rows with \<open>is_filtered = 0\<close> and updates them by their key, so the
  filtered rows of the table are the same before and after it.
\<close>

theorem filtered_rows_never_scored:
  assumes "reachable rows"
  shows "(\<forall>r \<in> set rows. col_is_filtered r \<noteq> 0 \<longrightarrow> col_score r = SInt 0)
         \<and> (\<forall>env resume_text resp rows'.
               api_analyze env resume_text rows = (resp, rows') \<longrightarrow>
               filter (\<lambda>r. col_is_filtered r \<noteq> 0) rows'
                 = filter (\<lambda>r. col_is_filtered r \<noteq> 0) rows)"
proof -
  from assms have ok: "table_ok rows" by (rule reachable_ok)
  then have "\<forall>r \<in> set rows. col_is_filtered r \<noteq> 0 \<longrightarrow> col_score r = SInt 0"
    by (auto simp: table_ok_def list_all_iff filtered_unscored_def)
  moreover have "\<forall>env resume_text resp rows'.
               api_analyze env resume_text rows = (resp, rows') \<longrightarrow>
               filter (\<lambda>r. col_is_filtered r \<noteq> 0) rows'
                 = filter (\<lambda>r. col_is_filtered r \<noteq> 0) rows"
    using api_analyze_ok ok by blast
  ultimately show ?thesis by simp
qed

theorem filtered_rows_never_scored_witness:
  "reachable [rejected_row]
   \<and> col_is_filtered rejected_row = 1
   \<and> col_score rejected_row = SInt 0
   \<and> api_analyze rejecting_env ''resume'' [rejected_row] = (Analyzed 0, [rejected_row])"
proof -
  have run: "api_scan rejecting_env (Inr [sample_job]) ''resume'' []
               = (Scanned 1 0 1, [rejected_row])"
    by (simp add: api_scan_def ingest_def rejecting_env_def exists_job_def job_ids_def
        ai_filter_and_score_def filter_try_def json_span_def insert_scanned_def
        insert_row_def rejected_row_def)
  have reach: "reachable [rejected_row]"
    by (rule reachable.scan [OF reachable.init_db run])
  have f: "col_is_filtered rejected_row = 1"
    by (simp add: rejected_row_def new_row_def)
  have a: "api_analyze rejecting_env ''resume'' [rejected_row] = (Analyzed 0, [rejected_row])"
    by (simp add: api_analyze_def pending_analysis_def f)
  from filtered_rows_never_scored [OF reach] reach f a show ?thesis
    by simp
qed


subsection \<open>Field lengths of feed records\<close>

text \<open>The item with the long title, through one turn of the loop.\<close>

lemma clean_acme:
  "clean_job_url ip_ok ''https://weworkremotely.com/remote-jobs/acme-123''
     = Inr ''https://weworkremotely.com/remote-jobs/acme-123''"
  by code_simp

lemma wwr_long_title_item:
  "\<exists>jid. wwr_item env long_title_item
     = Inr (Some \<lparr>job_id = jid, title = replicate 200 CHR ''x'', company = [],
                  location = ''Remote'',
                  url = ''https://weworkremotely.com/remote-jobs/acme-123'',
                  source = ''weworkremotely'', raw_text = replicate 2001 CHR ''x'',
                  created_at = feed_now env, email_date = feed_now env,
                  description = Some []\<rparr>)"
  by (simp add: wwr_item_def long_title_item_def elem_true_def text_or_empty_def
      item_pub_date_def item_description_text_def text_or_def generate_job_id_def
      clean_acme Let_def)

text \<open>
  C6. The feed parser cuts the title at 200 and the company at 100 characters and the
  description at 2000, but \<open>raw_text\<close> is \<open>description or title\<close>: for an item without
  description text it is the whole title of the feed, which nothing cuts. An item whose
  title has 2001 characters gives a record with a title of 200 characters and a
  \<open>raw_text\<close> of 2001, and \<open>api_scan_wwr\<close> stores that \<open>raw_text\<close> as it is (on a table
  that has the \<open>description\<close> column its \<open>INSERT\<close> names).
\<close>

theorem wwr_raw_text_exceeds_cap:
  "map (\<lambda>j. (length (title j), length (company j), length (location j), length (raw_text j)))
       (fetch_wwr_jobs env [Inr [long_title_item], Inr [], Inl FileNotFoundError])
     = [(200, 0, 6, 2001)]
   \<and> map (\<lambda>r. length (col_raw_text r))
         (snd (api_scan_wwr (sample_env\<lparr>description_column := True\<rparr>)
                 (fetch_wwr_jobs env [Inr [long_title_item], Inr [], Inl FileNotFoundError])
                 ''resume'' []))
       = [2001]"
proof -
  obtain jid where
    "wwr_item env long_title_item
       = Inr (Some \<lparr>job_id = jid, title = replicate 200 CHR ''x'', company = [],
                    location = ''Remote'',
                    url = ''https://weworkremotely.com/remote-jobs/acme-123'',
                    source = ''weworkremotely'', raw_text = replicate 2001 CHR ''x'',
                    created_at = feed_now env, email_date = feed_now env,
                    description = Some []\<rparr>)"
    using wwr_long_title_item by blast
  then show ?thesis
    by (simp add: fetch_wwr_jobs_def api_scan_wwr_def ingest_def sample_env_def
        exists_job_def job_ids_def ai_filter_and_score_def filter_try_def
        filter_fallback_def insert_scanned_def insert_row_def new_row_def)
qed


end
